theory Spec2Isabelle
  imports Complex_Main
begin

section \<open>JavaScript values used by the server\<close>

text \<open>
  A JavaScript string is a sequence of UTF-16 code units; \<open>split('')\<close>,
  \<open>substring\<close> and \<open>length\<close> all count code units, and two of the literals of the
  corruption engine lie outside ASCII. Strings are therefore lists of code units, and
  \<open>ascii\<close> embeds the ASCII literals of the source.

  Times are the millisecond values of \<open>Date.now()\<close> and of \<open>Date\<close> objects (integers).
  A draw of \<open>Math.random()\<close> and a stored \<open>volatility_factor\<close> are finite numbers, given
  by their exact value as reals. The arithmetic of \<open>calculatePriorityScore\<close> is the
  arithmetic of JavaScript numbers: every operation rounds its exact result to a double
  (\<open>round64\<close> below) and may give \<open>Infinity\<close> or \<open>NaN\<close>. The constructor's
  \<open>Math.random() * 0.9 + 0.1\<close> is computed exactly.
\<close>

type_synonym jsstring = "nat list"

definition ascii :: "string \<Rightarrow> jsstring" where
  "ascii s = map of_char s"

fun decimal :: "nat \<Rightarrow> jsstring" where
  "decimal n = (if n < 10 then [48 + n] else decimal (n div 10) @ [48 + n mod 10])"

declare decimal.simps [simp del]

text \<open>\<open>Date.now().toString()\<close>: the decimal digits of an integer.\<close>

definition toString :: "int \<Rightarrow> jsstring" where
  "toString n = (if n < 0 then ascii ''-'' @ decimal (nat (- n)) else decimal (nat n))"

section \<open>The Task class (src/server/models/Task.js)\<close>

text \<open>
  The fields are those the constructor assigns. \<open>corrupted\<close> is absent from a new
  object (reading it gives \<open>undefined\<close>, which is falsy) until the corruption engine
  sets it; absent is modelled as \<open>False\<close>. The field \<open>id\<close> is named \<open>task_id\<close>.
\<close>

record task =
  task_id :: jsstring
  title :: jsstring
  description :: jsstring
  status :: jsstring
  created_at :: int
  updated_at :: int
  volatility_factor :: real
  deadline :: int
  version :: int
  corrupted :: bool

text \<open>
  What the constructor reads from its environment, in the order of the source: the clock
  (\<open>Date.now()\<close>, \<open>new Date()\<close>) four times and \<open>Math.random()\<close> twice. The first draw
  is only ever concatenated to the id, so it is kept as the text it renders to.
\<close>

record creation =
  clock_id :: int
  random_id :: jsstring
  clock_created_at :: int
  clock_updated_at :: int
  random_volatility :: real
  clock_deadline :: int

definition Task :: "creation \<Rightarrow> jsstring \<Rightarrow> jsstring \<Rightarrow> task" where
  "Task e title_arg description_arg =
     \<lparr> task_id = toString (clock_id e) @ random_id e,
       title = title_arg,
       description = description_arg,
       status = ascii ''Todo'',
       created_at = clock_created_at e,
       updated_at = clock_updated_at e,
       volatility_factor = random_volatility e * 0.9 + 0.1,
       deadline = clock_deadline e + 7 * 24 * 60 * 60 * 1000,
       version = 0,
       corrupted = False \<rparr>"

section \<open>The server (src/client/src/App.js, second document)\<close>

subsection \<open>Requests and replies\<close>

text \<open>
  A request body is a parsed JSON object: each key is absent (\<open>None\<close>, what JavaScript
  reads as \<open>undefined\<close>) or present. Present values carry the type the Task class
  gives the field of that name; a time is given by its millisecond value.
\<close>

record post_body =
  post_title :: "jsstring option"
  post_description :: "jsstring option"

record patch_body =
  patch_id :: "jsstring option"
  patch_title :: "jsstring option"
  patch_description :: "jsstring option"
  patch_status :: "jsstring option"
  patch_created_at :: "int option"
  patch_updated_at :: "int option"
  patch_volatility_factor :: "real option"
  patch_deadline :: "int option"
  patch_version :: "int option"
  patch_corrupted :: "bool option"

datatype payload =
    Error_body jsstring
  | Task_body task
  | Conflict_body jsstring int task
  | Empty_body

text \<open>
  What handling one request does: the reply (\<open>res.status(..).json(..)\<close>), the array
  \<open>tasks\<close> afterwards, and whether \<open>broadcastTasks()\<close> was called.
\<close>

record outcome =
  http_status :: nat
  http_body :: payload
  store :: "task list"
  broadcasts :: bool

subsection \<open>Array helpers\<close>

text \<open>
  \<open>Array.prototype.findIndex\<close>, with \<open>None\<close> for \<open>-1\<close>. \<open>tasks.find(p)\<close> returns a
  reference to the element at that index, so a later assignment to a field of the result
  updates the array at that index.
\<close>

fun findIndex :: "('a \<Rightarrow> bool) \<Rightarrow> 'a list \<Rightarrow> nat option" where
  "findIndex p [] = None"
| "findIndex p (x # xs) = (if p x then Some 0 else map_option Suc (findIndex p xs))"

subsection \<open>POST /tasks\<close>

text \<open>\<open>description || ''\<close>: a missing or empty description becomes the empty string.\<close>

definition or_empty :: "jsstring option \<Rightarrow> jsstring" where
  "or_empty v = (case v of None \<Rightarrow> [] | Some s \<Rightarrow> (if s = [] then [] else s))"

definition post_tasks :: "creation \<Rightarrow> post_body \<Rightarrow> task list \<Rightarrow> outcome" where
  "post_tasks e req tasks =
     (case post_title req of
        None \<Rightarrow>
          \<lparr> http_status = 400, http_body = Error_body (ascii ''Title is required''),
            store = tasks, broadcasts = False \<rparr>
      | Some t \<Rightarrow>
          if t = [] then
            \<lparr> http_status = 400, http_body = Error_body (ascii ''Title is required''),
              store = tasks, broadcasts = False \<rparr>
          else
            let new_task = Task e t (or_empty (post_description req))
            in \<lparr> http_status = 201, http_body = Task_body new_task,
                 store = tasks @ [new_task], broadcasts = True \<rparr>)"

subsection \<open>PATCH /tasks/:id\<close>

text \<open>\<open>Object.assign(task, req.body)\<close>: every key present in the body overwrites the field.\<close>

definition Object_assign :: "task \<Rightarrow> patch_body \<Rightarrow> task" where
  "Object_assign t req =
     \<lparr> task_id = (case patch_id req of None \<Rightarrow> task_id t | Some v \<Rightarrow> v),
       title = (case patch_title req of None \<Rightarrow> title t | Some v \<Rightarrow> v),
       description = (case patch_description req of None \<Rightarrow> description t | Some v \<Rightarrow> v),
       status = (case patch_status req of None \<Rightarrow> status t | Some v \<Rightarrow> v),
       created_at = (case patch_created_at req of None \<Rightarrow> created_at t | Some v \<Rightarrow> v),
       updated_at = (case patch_updated_at req of None \<Rightarrow> updated_at t | Some v \<Rightarrow> v),
       volatility_factor =
         (case patch_volatility_factor req of None \<Rightarrow> volatility_factor t | Some v \<Rightarrow> v),
       deadline = (case patch_deadline req of None \<Rightarrow> deadline t | Some v \<Rightarrow> v),
       version = (case patch_version req of None \<Rightarrow> version t | Some v \<Rightarrow> v),
       corrupted = (case patch_corrupted req of None \<Rightarrow> corrupted t | Some v \<Rightarrow> v) \<rparr>"

text \<open>
  The handler, with \<open>now\<close> the clock read by \<open>new Date()\<close> and \<open>rid\<close> the path parameter
  \<open>req.params.id\<close>.
\<close>

definition patch_tasks :: "int \<Rightarrow> jsstring \<Rightarrow> patch_body \<Rightarrow> task list \<Rightarrow> outcome" where
  "patch_tasks now rid req tasks =
     (case findIndex (\<lambda>t. task_id t = rid) tasks of
        None \<Rightarrow>
          \<lparr> http_status = 404, http_body = Error_body (ascii ''Task not found''),
            store = tasks, broadcasts = False \<rparr>
      | Some i \<Rightarrow>
          let found = tasks ! i;
              clientVersion = patch_version req
          in if clientVersion \<noteq> None \<and> clientVersion \<noteq> Some (version found) then
               \<lparr> http_status = 409,
                 http_body = Conflict_body (ascii ''Version conflict'') (version found) found,
                 store = tasks, broadcasts = False \<rparr>
             else
               let assigned = Object_assign found req;
                   stamped = assigned\<lparr> updated_at := now \<rparr>;
                   bumped = stamped\<lparr> version := version stamped + 1 \<rparr>
               in \<lparr> http_status = 200, http_body = Task_body bumped,
                    store = tasks[i := bumped], broadcasts = True \<rparr>)"

subsection \<open>DELETE /tasks/:id\<close>

definition delete_tasks :: "jsstring \<Rightarrow> task list \<Rightarrow> outcome" where
  "delete_tasks rid tasks =
     (case findIndex (\<lambda>t. task_id t = rid) tasks of
        None \<Rightarrow>
          \<lparr> http_status = 404, http_body = Error_body (ascii ''Task not found''),
            store = tasks, broadcasts = False \<rparr>
      | Some i \<Rightarrow>
          \<lparr> http_status = 204, http_body = Empty_body,
            store = take i tasks @ drop (Suc i) tasks, broadcasts = True \<rparr>)"

subsection \<open>JavaScript numbers\<close>

text \<open>
  A JavaScript number is an IEEE 754 double: a finite value, one of the two infinities, or
  \<open>NaN\<close>. The two zeros are not told apart: no operation of this program looks at the
  sign of a zero (\<open><=\<close> and \<open>===\<close> treat them alike, and JSON writes both as 0).
\<close>

datatype score = Finite real | Infinity | Minus_Infinity | NaN

text \<open>Rounding a real to the nearest integer, a tie going to the even one.\<close>

definition round_even :: "real \<Rightarrow> int" where
  "round_even y =
     (let f = \<lfloor>y\<rfloor>; r = y - of_int f
      in if r < 1 / 2 then f else if 1 / 2 < r then f + 1 else if even f then f else f + 1)"

text \<open>
  Rounding a real to a double, round-to-nearest with ties to even. \<open>binade x\<close> is the
  exponent \<open>e\<close> with \<open>2^e \<le> |x| < 2^(e+1)\<close>. A double has 53 significant bits, so the
  doubles around \<open>x\<close> are the multiples of \<open>2^(e-52)\<close>; below the smallest normal
  exponent \<open>-1022\<close> the spacing stays \<open>2^(-1074)\<close>. A result of magnitude \<open>2^1024\<close> or
  more is an infinity.
\<close>

definition binade :: "real \<Rightarrow> int" where
  "binade x = \<lfloor>log 2 \<bar>x\<bar>\<rfloor>"

definition quantum :: "real \<Rightarrow> real" where
  "quantum x = 2 powi (max (binade x) (- 1022) - 52)"

definition nearest64 :: "real \<Rightarrow> real" where
  "nearest64 x = (if x = 0 then 0 else of_int (round_even (x / quantum x)) * quantum x)"

definition round64 :: "real \<Rightarrow> score" where
  "round64 x =
     (let r = nearest64 x
      in if 2 ^ 1024 \<le> r then Infinity
         else if r \<le> - (2 ^ 1024) then Minus_Infinity
         else Finite r)"

text \<open>
  The operators \<open>-\<close>, \<open>*\<close> and \<open>/\<close> on numbers. A zero divisor is read as \<open>+0\<close>; the
  only division of the program is reached with a divisor above 0.
\<close>

fun js_minus :: "score \<Rightarrow> score \<Rightarrow> score" where
  "js_minus NaN b = NaN"
| "js_minus a NaN = NaN"
| "js_minus (Finite a) (Finite b) = round64 (a - b)"
| "js_minus (Finite a) Infinity = Minus_Infinity"
| "js_minus (Finite a) Minus_Infinity = Infinity"
| "js_minus Infinity Infinity = NaN"
| "js_minus Infinity b = Infinity"
| "js_minus Minus_Infinity Minus_Infinity = NaN"
| "js_minus Minus_Infinity b = Minus_Infinity"

fun js_times :: "score \<Rightarrow> score \<Rightarrow> score" where
  "js_times NaN b = NaN"
| "js_times a NaN = NaN"
| "js_times (Finite a) (Finite b) = round64 (a * b)"
| "js_times (Finite a) Infinity =
     (if a = 0 then NaN else if 0 < a then Infinity else Minus_Infinity)"
| "js_times (Finite a) Minus_Infinity =
     (if a = 0 then NaN else if 0 < a then Minus_Infinity else Infinity)"
| "js_times Infinity (Finite b) =
     (if b = 0 then NaN else if 0 < b then Infinity else Minus_Infinity)"
| "js_times Minus_Infinity (Finite b) =
     (if b = 0 then NaN else if 0 < b then Minus_Infinity else Infinity)"
| "js_times Infinity Infinity = Infinity"
| "js_times Infinity Minus_Infinity = Minus_Infinity"
| "js_times Minus_Infinity Infinity = Minus_Infinity"
| "js_times Minus_Infinity Minus_Infinity = Infinity"

fun js_divide :: "score \<Rightarrow> score \<Rightarrow> score" where
  "js_divide NaN b = NaN"
| "js_divide a NaN = NaN"
| "js_divide (Finite a) (Finite b) =
     (if b = 0 then (if a = 0 then NaN else if 0 < a then Infinity else Minus_Infinity)
      else round64 (a / b))"
| "js_divide (Finite a) Infinity = Finite 0"
| "js_divide (Finite a) Minus_Infinity = Finite 0"
| "js_divide Infinity (Finite b) = (if 0 \<le> b then Infinity else Minus_Infinity)"
| "js_divide Minus_Infinity (Finite b) = (if 0 \<le> b then Minus_Infinity else Infinity)"
| "js_divide Infinity Infinity = NaN"
| "js_divide Infinity Minus_Infinity = NaN"
| "js_divide Minus_Infinity Infinity = NaN"
| "js_divide Minus_Infinity Minus_Infinity = NaN"

text \<open>The comparison \<open>a <= b\<close>: false as soon as one side is \<open>NaN\<close>.\<close>

fun score_le :: "score \<Rightarrow> score \<Rightarrow> bool" where
  "score_le (Finite a) (Finite b) = (a \<le> b)"
| "score_le (Finite a) Infinity = True"
| "score_le Infinity (Finite b) = False"
| "score_le Infinity Infinity = True"
| "score_le NaN b = False"
| "score_le a NaN = False"
| "score_le Minus_Infinity b = True"
| "score_le a Minus_Infinity = False"

text \<open>
  \<open>new Date(v).getTime()\<close> for a field \<open>v\<close> that holds a time in milliseconds: a
  \<open>Date\<close> holds a time value of at most 8.64e15 ms in magnitude and is invalid beyond,
  and the time value of an invalid \<open>Date\<close> is \<open>NaN\<close>.
\<close>

definition Date_getTime :: "int \<Rightarrow> score" where
  "Date_getTime v = (if \<bar>v\<bar> \<le> 8640000000000000 then Finite (of_int v) else NaN)"

subsection \<open>calculatePriorityScore\<close>

text \<open>\<open>now\<close> is the value of \<open>Date.now()\<close> read in the first line of the function.\<close>

definition calculatePriorityScore :: "int \<Rightarrow> task \<Rightarrow> score" where
  "calculatePriorityScore now t =
     (let timeSinceUpdate = js_minus (Finite (of_int now)) (Date_getTime (updated_at t));
          timeUntilDeadline = js_minus (Date_getTime (deadline t)) (Finite (of_int now))
      in if score_le timeUntilDeadline (Finite 0) then Infinity
         else js_divide (js_times timeSinceUpdate (Finite (volatility_factor t)))
                timeUntilDeadline)"

subsection \<open>The corruption engine\<close>

datatype js_error = TypeError

definition STALE_THRESHOLD :: int where
  "STALE_THRESHOLD = 30 * 1000"

text \<open>
  The predicate of \<open>tasks.filter(..)\<close>. The constructor and the PATCH handler both leave
  \<open>updated_at\<close> as assigned from \<open>new Date()\<close>, a valid time, so \<open>getTime()\<close> returns it,
  and the comparison with the threshold is the same before and after rounding the
  difference.
\<close>

definition is_stale :: "int \<Rightarrow> task \<Rightarrow> bool" where
  "is_stale now t =
     (let timeSinceUpdate = now - updated_at t
      in status t = ascii ''Doing'' \<and> timeSinceUpdate > STALE_THRESHOLD)"

definition staleTasks :: "int \<Rightarrow> task list \<Rightarrow> task list" where
  "staleTasks now tasks = filter (is_stale now) tasks"

text \<open>
  The entries of \<open>staleTasks\<close> are references to objects of \<open>tasks\<close>: entry \<open>k\<close> is the
  object at index \<open>stale_refs now tasks ! k\<close> of the store, and assigning to its fields
  changes the store there.
\<close>

definition stale_refs :: "int \<Rightarrow> task list \<Rightarrow> nat list" where
  "stale_refs now tasks = filter (\<lambda>i. is_stale now (tasks ! i)) [0..<length tasks]"

text \<open>\<open>Math.floor(Math.random() * n)\<close> for a draw \<open>r\<close>.\<close>

definition random_index :: "real \<Rightarrow> nat \<Rightarrow> int" where
  "random_index r n = \<lfloor>r * real n\<rfloor>"

text \<open>
  \<open>staleTasks[Math.floor(Math.random() * staleTasks.length)]\<close>, as the store index of
  the selected object; \<open>None\<close> is \<open>undefined\<close> (an index outside the array).
\<close>

definition randomTask :: "real \<Rightarrow> int \<Rightarrow> task list \<Rightarrow> nat option" where
  "randomTask r now tasks =
     (let refs = stale_refs now tasks;
          k = random_index r (length refs)
      in if 0 \<le> k \<and> k < int (length refs) then Some (refs ! nat k) else None)"

text \<open>
  What one tick reads from its environment: the two draws that pick the task and the
  operator, the arrangement that \<open>sort\<close> returns under the comparator
  \<open>() => Math.random() - 0.5\<close> (which ignores its arguments, so the result is whatever
  the engine's sort makes of the draws), and the draws of the masking operator, one per
  character in order.
\<close>

record tick =
  random_task :: real
  random_method :: real
  sort_result :: "jsstring \<Rightarrow> jsstring"
  mask_draws :: "nat \<Rightarrow> real"

text \<open>\<open>desc.replace(/[aeiou]/gi, c)\<close> with the block glyph U+2588.\<close>

definition vowel_blackout :: "jsstring \<Rightarrow> jsstring" where
  "vowel_blackout desc = map (\<lambda>c. if c \<in> set (ascii ''aeiouAEIOU'') then 9608 else c) desc"

text \<open>\<open>desc.split('').map(c => Math.random() > 0.7 ? '?' : c).join('')\<close>\<close>

definition random_mask :: "(nat \<Rightarrow> real) \<Rightarrow> jsstring \<Rightarrow> jsstring" where
  "random_mask draws desc =
     map (\<lambda>(k, c). if draws k > 0.7 then of_char CHR ''?'' else c) (zip [0..<length desc] desc)"

text \<open>
  The template literal: the warning sign U+26A0 with its variation selector U+FE0F, the
  text, the first 20 code units, and three dots.
\<close>

definition truncate_and_flag :: "jsstring \<Rightarrow> jsstring" where
  "truncate_and_flag desc = [9888, 65039] @ ascii '' CORRUPTED: '' @ take 20 desc @ ascii ''...''"

text \<open>\<open>s.split(sep)\<close> for a one-character separator, and \<open>a.join(sep)\<close>.\<close>

fun split_on :: "'a \<Rightarrow> 'a list \<Rightarrow> 'a list list" where
  "split_on sep [] = [[]]"
| "split_on sep (c # cs) =
     (if c = sep then [] # split_on sep cs
      else (case split_on sep cs of [] \<Rightarrow> [[c]] | w # ws \<Rightarrow> (c # w) # ws))"

fun join_with :: "'a list \<Rightarrow> 'a list list \<Rightarrow> 'a list" where
  "join_with sep [] = []"
| "join_with sep [w] = w"
| "join_with sep (w # ws) = w @ sep @ join_with sep ws"

definition reverse_words :: "jsstring \<Rightarrow> jsstring" where
  "reverse_words desc = join_with (ascii '' '') (rev (split_on (of_char CHR '' '') desc))"

definition corruptions :: "tick \<Rightarrow> (jsstring \<Rightarrow> jsstring) list" where
  "corruptions e =
     [sort_result e, vowel_blackout, random_mask (mask_draws e), truncate_and_flag,
      reverse_words]"

text \<open>\<open>corruptions[Math.floor(Math.random() * corruptions.length)]\<close>\<close>

definition corruptionMethod :: "tick \<Rightarrow> (jsstring \<Rightarrow> jsstring) option" where
  "corruptionMethod e =
     (let k = random_index (random_method e) (length (corruptions e))
      in if 0 \<le> k \<and> k < int (length (corruptions e)) then Some (corruptions e ! nat k)
         else None)"

text \<open>
  One run of \<open>corruptStaleTasks\<close>: the store afterwards, whether \<open>broadcastTasks()\<close> was
  called, and the exception that left the function, if any. Reading \<open>.description\<close> of
  \<open>undefined\<close> and calling \<open>undefined\<close> raise a TypeError before anything is assigned.
\<close>

record tick_result =
  store_after :: "task list"
  broadcast_sent :: bool
  thrown :: "js_error option"

definition corruptStaleTasks :: "tick \<Rightarrow> int \<Rightarrow> task list \<Rightarrow> tick_result" where
  "corruptStaleTasks e now tasks =
     (if length (staleTasks now tasks) = 0 then
        \<lparr> store_after = tasks, broadcast_sent = False, thrown = None \<rparr>
      else
        (case randomTask (random_task e) now tasks of
           None \<Rightarrow> \<lparr> store_after = tasks, broadcast_sent = False, thrown = Some TypeError \<rparr>
         | Some i \<Rightarrow>
             if description (tasks ! i) \<noteq> [] then
               (case corruptionMethod e of
                  None \<Rightarrow>
                    \<lparr> store_after = tasks, broadcast_sent = False, thrown = Some TypeError \<rparr>
                | Some method \<Rightarrow>
                    \<lparr> store_after =
                        tasks[i := (tasks ! i)\<lparr> description := method (description (tasks ! i)),
                                                corrupted := True \<rparr>],
                      broadcast_sent = True, thrown = None \<rparr>)
             else \<lparr> store_after = tasks, broadcast_sent = False, thrown = None \<rparr>))"

section \<open>The client (src/client/src/App.js, first document)\<close>

text \<open>
  A snapshot entry is a task with its score (\<open>{...task, priority_score}\<close>). The client
  keeps the list it renders and the map \<open>pendingUpdates\<close> from task id to the optimistic
  value of a request still in flight.
\<close>

record scored_task = task +
  priority_score :: score

text \<open>The spread \<open>{...task, priority_score: s}\<close>.\<close>

definition with_score :: "task \<Rightarrow> score \<Rightarrow> scored_task" where
  "with_score t s =
     \<lparr> task_id = task_id t, title = title t, description = description t, status = status t,
       created_at = created_at t, updated_at = updated_at t,
       volatility_factor = volatility_factor t, deadline = deadline t, version = version t,
       corrupted = corrupted t, priority_score = s \<rparr>"

record client =
  local_tasks :: "scored_task list"
  pendingUpdates :: "jsstring \<rightharpoonup> scored_task"

text \<open>
  The handler of \<open>tasks_updated\<close>. \<open>pendingUpdates.current.has(id)\<close> is
  \<open>pendingUpdates c id \<noteq> None\<close>, and \<open>get(id)\<close> is then the stored value. The updater
  passed to \<open>setTasks\<close> does not read \<open>currentTasks\<close>.
\<close>

definition tasks_updated :: "client \<Rightarrow> scored_task list \<Rightarrow> client" where
  "tasks_updated c updatedTasks =
     c\<lparr> local_tasks :=
          map (\<lambda>serverTask.
                 case pendingUpdates c (task_id serverTask) of
                   Some shadow \<Rightarrow> shadow
                 | None \<Rightarrow> serverTask)
              updatedTasks \<rparr>"

section \<open>The fields fixed at creation\<close>

text \<open>The four fields of a task that the data model calls immutable, read together.\<close>

definition fixed_at_creation :: "task \<Rightarrow> jsstring \<times> int \<times> int \<times> real" where
  "fixed_at_creation t = (task_id t, created_at t, deadline t, volatility_factor t)"

section \<open>Example values\<close>

text \<open>
  A creation at clock value 0 with the draw 0.5 for the volatility, the request that
  creates task A, and two tasks of a running store: task A after three accepted updates,
  now in Doing, and a task B created at clock value 500 with the draw 0.
\<close>

definition env_A :: creation where
  "env_A = \<lparr> clock_id = 0, random_id = ascii ''0.25'', clock_created_at = 0,
             clock_updated_at = 0, random_volatility = 0.5, clock_deadline = 0 \<rparr>"

definition request_A :: post_body where
  "request_A = \<lparr> post_title = Some (ascii ''A''),
                 post_description = Some (ascii ''hello world'') \<rparr>"

definition task_A :: task where
  "task_A = \<lparr> task_id = ascii ''00.25'', title = ascii ''A'', description = ascii ''hello world'',
              status = ascii ''Doing'', created_at = 0, updated_at = 1000,
              volatility_factor = 0.55, deadline = 604800000, version = 3, corrupted = False \<rparr>"

definition task_B :: task where
  "task_B = \<lparr> task_id = ascii ''5000.75'', title = ascii ''B'', description = [],
              status = ascii ''Todo'', created_at = 500, updated_at = 500,
              volatility_factor = 0.1, deadline = 604800500, version = 0, corrupted = False \<rparr>"

text \<open>The PATCH body \<open>{}\<close>; the bodies of the examples set some of its keys.\<close>

definition no_fields :: patch_body where
  "no_fields = \<lparr> patch_id = None, patch_title = None, patch_description = None,
       patch_status = None, patch_created_at = None, patch_updated_at = None,
       patch_volatility_factor = None, patch_deadline = None, patch_version = None,
       patch_corrupted = None \<rparr>"

text \<open>
  Task A as created by \<open>request_A\<close> under \<open>env_A\<close>, after a PATCH one second later that
  carried a negative \<open>volatility_factor\<close>; and after a PATCH at the instant of its
  deadline that carried the \<open>volatility_factor\<close> 0.1, which as a double is
  \<open>3602879701896397 / 2^55\<close>.
\<close>

definition sinking_task :: task where
  "sinking_task = \<lparr> task_id = ascii ''00.25'', title = ascii ''A'',
                    description = ascii ''hello world'', status = ascii ''Todo'', created_at = 0,
                    updated_at = 1000, volatility_factor = - 1, deadline = 604800000,
                    version = 1, corrupted = False \<rparr>"

definition near_task :: task where
  "near_task = \<lparr> task_id = ascii ''00.25'', title = ascii ''A'',
                 description = ascii ''hello world'', status = ascii ''Todo'', created_at = 0,
                 updated_at = 604800000, volatility_factor = 3602879701896397 / 2 ^ 55,
                 deadline = 604800000, version = 1, corrupted = False \<rparr>"

text \<open>
  Task A of the running store after a PATCH that carried a deadline beyond the range of
  \<open>Date\<close>, 9e15 ms after or before the epoch.
\<close>

definition far_task :: task where
  "far_task = task_A\<lparr> deadline := 9000000000000000, updated_at := 5000, version := 4 \<rparr>"

definition past_task :: task where
  "past_task = task_A\<lparr> deadline := - 9000000000000000, updated_at := 5000, version := 4 \<rparr>"

text \<open>A tick whose draws pick the middle of the stale tasks and the second operator.\<close>

definition tick_A :: tick where
  "tick_A = \<lparr> random_task = 0.5, random_method = 0.3, sort_result = rev,
              mask_draws = (\<lambda>k. 0.5) \<rparr>"

text \<open>A client holding an optimistic move of task A to Done, and a snapshot.\<close>

definition shadow_A :: scored_task where
  "shadow_A = with_score (task_A\<lparr> status := ascii ''Done'', updated_at := 4000 \<rparr>) (Finite 0)"

definition client_A :: client where
  "client_A = \<lparr> local_tasks = [shadow_A], pendingUpdates = [ascii ''00.25'' \<mapsto> shadow_A] \<rparr>"

definition snapshot_A :: "scored_task list" where
  "snapshot_A = [with_score task_A (Finite 2), with_score task_B (Finite 0)]"

section \<open>Facts about the helpers\<close>

lemma ascii_eq_iff [simp]: "ascii s = ascii s' \<longleftrightarrow> s = s'"
  by (simp add: ascii_def inj_on_def)

lemma ascii_Nil_iff [simp]: "ascii s = [] \<longleftrightarrow> s = []"
  by (simp add: ascii_def)

lemma findIndex_Some:
  "findIndex p xs = Some i \<Longrightarrow> i < length xs \<and> p (xs ! i) \<and> (\<forall>j<i. \<not> p (xs ! j))"
proof (induction xs arbitrary: i)
  case Nil
  then show ?case by simp
next
  case (Cons x xs)
  show ?case
  proof (cases "p x")
    case True
    with Cons.prems show ?thesis by simp
  next
    case False
    with Cons.prems obtain k where k: "findIndex p xs = Some k" "i = Suc k"
      by auto
    from Cons.IH [OF k(1)] False k(2) show ?thesis
      by (auto simp: nth_Cons split: nat.splits)
  qed
qed

lemma findIndex_None: "findIndex p xs = None \<longleftrightarrow> (\<forall>x\<in>set xs. \<not> p x)"
  by (induction xs) auto

subsection \<open>Rounding to a double\<close>

lemma round_even_bounds: "\<lfloor>y\<rfloor> \<le> round_even y \<and> round_even y \<le> \<lfloor>y\<rfloor> + 1"
  by (simp add: round_even_def Let_def)

lemma round_even_of_int [simp]: "round_even (of_int n) = n"
  by (simp add: round_even_def)

lemma round_even_mono:
  assumes "a \<le> b"
  shows "round_even a \<le> round_even b"
proof (cases "\<lfloor>a\<rfloor> = \<lfloor>b\<rfloor>")
  case True
  with assms have "a - of_int \<lfloor>a\<rfloor> \<le> b - of_int \<lfloor>b\<rfloor>" by simp
  with True show ?thesis by (auto simp: round_even_def Let_def)
next
  case False
  with assms have "\<lfloor>a\<rfloor> < \<lfloor>b\<rfloor>" using floor_mono [OF assms] by linarith
  with round_even_bounds [of a] round_even_bounds [of b] show ?thesis by linarith
qed

lemma round_even_minus: "round_even (- y) = - round_even y"
proof (cases "y = of_int \<lfloor>y\<rfloor>")
  case True
  then obtain n where "y = of_int n" ..
  then have "round_even (- y) = round_even (of_int (- n))" by simp
  also have "\<dots> = - n" by (simp only: round_even_of_int)
  finally show ?thesis using \<open>y = of_int n\<close> by simp
next
  case False
  have lo: "of_int \<lfloor>y\<rfloor> \<le> y" and hi: "y < of_int \<lfloor>y\<rfloor> + 1" by linarith+
  from False lo have strict: "of_int \<lfloor>y\<rfloor> < y" by linarith
  have fl: "\<lfloor>- y\<rfloor> = - \<lfloor>y\<rfloor> - 1"
  proof (rule floor_unique)
    have cast: "real_of_int (- \<lfloor>y\<rfloor> - 1) = - real_of_int \<lfloor>y\<rfloor> - 1" by simp
    from hi cast show "of_int (- \<lfloor>y\<rfloor> - 1) \<le> - y" by linarith
    from strict cast show "- y < of_int (- \<lfloor>y\<rfloor> - 1) + 1" by linarith
  qed
  from lo hi fl show ?thesis
    by (auto simp: round_even_def Let_def)
qed

lemma two_powi_pos [simp]: "0 < (2::real) powi k"
  by simp

lemma binade_bounds:
  assumes "x \<noteq> 0"
  shows "2 powi binade x \<le> \<bar>x\<bar> \<and> \<bar>x\<bar> < 2 powi (binade x + 1)"
proof -
  from assms have pos: "0 < \<bar>x\<bar>" by simp
  have "\<lfloor>log 2 \<bar>x\<bar>\<rfloor> = binade x" by (simp add: binade_def)
  with floor_log_eq_powr_iff [OF pos, of 2 "binade x"]
  have "2 powr real_of_int (binade x) \<le> \<bar>x\<bar> \<and> \<bar>x\<bar> < 2 powr (real_of_int (binade x) + 1)"
    by simp
  moreover have "2 powr real_of_int (binade x) = (2::real) powi binade x"
    by (rule powr_real_of_int') simp_all
  moreover have "2 powr (real_of_int (binade x) + 1) = (2::real) powi (binade x + 1)"
    using powr_real_of_int' [of 2 "binade x + 1"] by simp
  ultimately show ?thesis by simp
qed

lemma binade_unique:
  assumes "2 powi e \<le> \<bar>x\<bar>" and "\<bar>x\<bar> < 2 powi (e + 1)"
  shows "binade x = e"
proof -
  from assms(1) have pos: "0 < \<bar>x\<bar>" using two_powi_pos [of e] by linarith
  have "2 powr real_of_int e = (2::real) powi e"
    by (rule powr_real_of_int') simp_all
  moreover have "2 powr (real_of_int e + 1) = (2::real) powi (e + 1)"
    using powr_real_of_int' [of 2 "e + 1"] by simp
  ultimately have "2 powr real_of_int e \<le> \<bar>x\<bar> \<and> \<bar>x\<bar> < 2 powr (real_of_int e + 1)"
    using assms by simp
  with floor_log_eq_powr_iff [OF pos, of 2 e] show ?thesis
    by (simp add: binade_def)
qed

lemma binade_mono:
  assumes "0 < x" "x \<le> y"
  shows "binade x \<le> binade y"
proof -
  from assms have "log 2 x \<le> log 2 y" by simp
  with assms show ?thesis by (simp add: binade_def floor_mono)
qed

lemma binade_minus [simp]: "binade (- x) = binade x"
  by (simp add: binade_def)

lemma quantum_minus [simp]: "quantum (- x) = quantum x"
  by (simp add: quantum_def)

lemma quantum_pos [simp]: "0 < quantum x"
  by (simp add: quantum_def)

lemma nearest64_minus: "nearest64 (- x) = - nearest64 x"
  by (simp add: nearest64_def round_even_minus)

lemma nearest64_in_binade:
  assumes "2 powi e \<le> \<bar>x\<bar>" and "\<bar>x\<bar> < 2 powi (e + 1)" and "- 1022 \<le> e"
  shows "nearest64 x = of_int (round_even (x / 2 powi (e - 52))) * 2 powi (e - 52)"
proof -
  have "x \<noteq> 0"
  proof
    assume "x = 0"
    with assms(1) two_powi_pos [of e] show False by simp
  qed
  moreover from binade_unique [OF assms(1,2)] assms(3) have "quantum x = 2 powi (e - 52)"
    by (simp add: quantum_def max_def)
  ultimately show ?thesis by (simp add: nearest64_def)
qed

lemma nearest64_subnormal:
  assumes "x \<noteq> 0" and "\<bar>x\<bar> < 2 powi (- 1022)"
  shows "nearest64 x = of_int (round_even (x / 2 powi (- 1074))) * 2 powi (- 1074)"
proof -
  have "binade x < - 1022"
  proof (rule ccontr)
    assume "\<not> binade x < - 1022"
    then have "(2::real) powi (- 1022) \<le> 2 powi binade x"
      by (intro power_int_increasing) simp_all
    with binade_bounds [OF assms(1)] assms(2) show False by linarith
  qed
  then have q: "quantum x = 2 powi (- 1074)" by (simp add: quantum_def max_def)
  from assms(1) show ?thesis unfolding nearest64_def q by (simp only: if_False)
qed

lemma two_powi_less_imp_less:
  assumes "(2::real) powi a < 2 powi b"
  shows "a < b"
proof (rule ccontr)
  assume "\<not> a < b"
  then have "(2::real) powi b \<le> 2 powi a"
    by (intro power_int_increasing) simp_all
  with assms show False by simp
qed

lemma two_powi_split: "(2::real) powi (a + b) = 2 powi a * 2 powi b"
  by (rule power_int_add) simp

lemma quantum_nonneg [simp]: "0 \<le> quantum x"
  using quantum_pos [of x] by (rule less_imp_le)

lemma two_powi_53: "(2::real) powi (E + 1) = 2 ^ 53 * 2 powi (E - 52)"
proof -
  have "E + 1 = 53 + (E - 52)" by simp
  then have "(2::real) powi (E + 1) = 2 powi (53 + (E - 52))" by (simp only:)
  also have "\<dots> = 2 powi 53 * 2 powi (E - 52)" by (rule two_powi_split)
  finally show ?thesis by simp
qed

lemma two_powi_52: "(2::real) powi E = 2 ^ 52 * 2 powi (E - 52)"
proof -
  have "E = 52 + (E - 52)" by simp
  then have "(2::real) powi E = 2 powi (52 + (E - 52))" by (simp only:)
  also have "\<dots> = 2 powi 52 * 2 powi (E - 52)" by (rule two_powi_split)
  finally show ?thesis by simp
qed

lemma nearest64_nonneg:
  assumes "0 \<le> x"
  shows "0 \<le> nearest64 x"
proof (cases "x = 0")
  case True
  then show ?thesis by (simp add: nearest64_def)
next
  case False
  have "0 \<le> x / quantum x" by (rule divide_nonneg_pos [OF assms quantum_pos])
  from round_even_mono [OF this] have "0 \<le> round_even (x / quantum x)"
    using round_even_of_int [of 0] by simp
  with False show ?thesis by (simp add: nearest64_def)
qed

lemma nearest64_upper:
  assumes "0 < x"
  shows "nearest64 x \<le> 2 powi (max (binade x) (- 1022) + 1)"
proof -
  define E where "E = max (binade x) (- 1022)"
  define q where "q = (2::real) powi (E - 52)"
  have q: "quantum x = q" by (simp add: quantum_def q_def E_def)
  have qpos: "0 < q" by (simp add: q_def)
  have top: "(2::real) powi (E + 1) = 2 ^ 53 * q" unfolding q_def by (rule two_powi_53)
  from assms binade_bounds [of x] have "x < 2 powi (binade x + 1)" by simp
  also have "\<dots> \<le> 2 powi (E + 1)"
    unfolding E_def by (intro power_int_increasing) simp_all
  finally have "x < 2 ^ 53 * q" by (simp only: top)
  with qpos have "x / q < 2 ^ 53" by (simp add: pos_divide_less_eq)
  then have "x / q \<le> of_int (2 ^ 53)" by simp
  then have "round_even (x / q) \<le> round_even (of_int (2 ^ 53))"
    by (rule round_even_mono)
  then have "round_even (x / q) \<le> 2 ^ 53" by (simp only: round_even_of_int)
  then have "real_of_int (round_even (x / q)) \<le> 2 ^ 53" by simp
  with qpos have "real_of_int (round_even (x / q)) * q \<le> 2 ^ 53 * q"
    by (intro mult_right_mono) simp_all
  with assms show ?thesis by (simp only: nearest64_def q top E_def [symmetric]) simp
qed

lemma nearest64_lower:
  assumes "0 < x" and "- 1022 \<le> binade x"
  shows "2 powi binade x \<le> nearest64 x"
proof -
  define q where "q = (2::real) powi (binade x - 52)"
  from assms(2) have q: "quantum x = q" by (simp add: quantum_def max_def q_def)
  have qpos: "0 < q" by (simp add: q_def)
  have bot: "(2::real) powi binade x = 2 ^ 52 * q" unfolding q_def by (rule two_powi_52)
  from assms binade_bounds [of x] have "2 powi binade x \<le> x" by simp
  then have "2 ^ 52 * q \<le> x" by (simp only: bot)
  with qpos have "2 ^ 52 \<le> x / q" by (simp add: pos_le_divide_eq)
  then have "of_int (2 ^ 52) \<le> x / q" by simp
  then have "round_even (of_int (2 ^ 52)) \<le> round_even (x / q)"
    by (rule round_even_mono)
  then have "2 ^ 52 \<le> round_even (x / q)" by (simp only: round_even_of_int)
  then have "2 ^ 52 \<le> real_of_int (round_even (x / q))" by simp
  with qpos have "2 ^ 52 * q \<le> real_of_int (round_even (x / q)) * q"
    by (intro mult_right_mono) simp_all
  with assms show ?thesis by (simp only: nearest64_def q bot) simp
qed

lemma nearest64_mono_pos:
  assumes "0 < x" and "x \<le> y"
  shows "nearest64 x \<le> nearest64 y"
proof -
  define Ex Ey where "Ex = max (binade x) (- 1022)" and "Ey = max (binade y) (- 1022)"
  from assms have y: "0 < y" by simp
  from binade_mono [OF assms] have le: "Ex \<le> Ey" unfolding Ex_def Ey_def by linarith
  show ?thesis
  proof (cases "Ex = Ey")
    case True
    then have q: "quantum y = quantum x" by (simp add: quantum_def Ex_def Ey_def)
    from assms(2) have "x / quantum x \<le> y / quantum x"
      by (rule divide_right_mono) simp
    from round_even_mono [OF this]
    have "real_of_int (round_even (x / quantum x)) * quantum x
            \<le> real_of_int (round_even (y / quantum x)) * quantum x"
      by (intro mult_right_mono) simp_all
    with assms(1) y q show ?thesis by (simp add: nearest64_def)
  next
    case False
    with le have lt: "Ex < Ey" by linarith
    then have ey: "- 1022 \<le> binade y" "Ex + 1 \<le> binade y"
      unfolding Ex_def Ey_def by linarith+
    from ey(2) have "(2::real) powi (Ex + 1) \<le> 2 powi binade y"
      by (intro power_int_increasing) simp_all
    with nearest64_upper [OF assms(1)] nearest64_lower [OF y ey(1)] show ?thesis
      unfolding Ex_def by linarith
  qed
qed

lemma nearest64_mono:
  assumes "x \<le> y"
  shows "nearest64 x \<le> nearest64 y"
proof -
  consider "0 < x" | "x \<le> 0" "0 \<le> y" | "y < 0" by linarith
  then show ?thesis
  proof cases
    case 1
    from 1 assms show ?thesis by (rule nearest64_mono_pos)
  next
    case 2
    from 2(1) have "0 \<le> nearest64 (- x)" by (intro nearest64_nonneg) simp
    then have "nearest64 x \<le> 0" by (simp add: nearest64_minus)
    with nearest64_nonneg [OF 2(2)] show ?thesis by linarith
  next
    case 3
    with assms have "0 < - y" "- y \<le> - x" by simp_all
    from nearest64_mono_pos [OF this] show ?thesis by (simp add: nearest64_minus)
  qed
qed

lemma nearest64_representable:
  assumes "\<bar>m\<bar> < 2 ^ 53" and "- 1074 \<le> j"
  shows "nearest64 (of_int m * 2 powi j) = of_int m * 2 powi j"
proof (cases "m = 0")
  case True
  then show ?thesis by (simp add: nearest64_def)
next
  case False
  define x where "x = real_of_int m * 2 powi j"
  define E where "E = max (binade x) (- 1022)"
  define q where "q = (2::real) powi (E - 52)"
  from False have nz: "x \<noteq> 0" by (simp add: x_def)
  have q: "quantum x = q" by (simp add: quantum_def q_def E_def)
  have qpos: "0 < q" by (simp add: q_def)
  have "E - 52 \<le> j"
  proof (cases "binade x \<le> - 1022")
    case True
    with assms(2) show ?thesis by (simp add: E_def max_def)
  next
    case False
    from assms(1) have "real_of_int \<bar>m\<bar> < 2 ^ 53"
      by simp
    then have "\<bar>real_of_int m\<bar> < 2 ^ 53" by simp
    then have "\<bar>real_of_int m\<bar> * 2 powi j < 2 ^ 53 * 2 powi j"
      by (intro mult_strict_right_mono) simp_all
    also have "(2::real) ^ 53 * 2 powi j = 2 powi (53 + j)"
      using two_powi_split [of 53 j] by simp
    finally have "\<bar>x\<bar> < 2 powi (53 + j)" by (simp add: x_def abs_mult)
    with binade_bounds [OF nz] have "2 powi binade x < (2::real) powi (53 + j)" by linarith
    from two_powi_less_imp_less [OF this] False show ?thesis by (simp add: E_def max_def)
  qed
  then obtain k where k: "j = (E - 52) + int k"
    by (metis add.commute diff_add_cancel nonneg_int_cases diff_ge_0_iff_ge)
  have "(2::real) powi j = 2 powi (E - 52) * 2 powi (int k)"
    unfolding k by (rule two_powi_split)
  then have pj: "(2::real) powi j = q * 2 ^ k" by (simp add: q_def)
  then have xq: "x = of_int (m * 2 ^ k) * q" by (simp add: x_def)
  with qpos have "x / q = of_int (m * 2 ^ k)" by simp
  then have "round_even (x / q) = m * 2 ^ k" by (simp only: round_even_of_int)
  then have "real_of_int (round_even (x / q)) * q = x" by (simp only: xq [symmetric])
  with nz have "nearest64 x = x" by (simp add: nearest64_def q)
  then show ?thesis by (simp only: x_def)
qed

lemma nearest64_of_int:
  assumes "\<bar>k\<bar> < 2 ^ 53"
  shows "nearest64 (of_int k) = of_int k"
  using nearest64_representable [OF assms, of 0] by simp

lemma nearest64_0 [simp]: "nearest64 0 = 0"
  by (simp add: nearest64_def)

lemma round64_not_NaN [simp]: "round64 x \<noteq> NaN"
  by (simp add: round64_def Let_def)

lemma round64_mono:
  assumes "x \<le> y"
  shows "score_le (round64 x) (round64 y)"
  using nearest64_mono [OF assms] by (auto simp: round64_def Let_def)

lemma round64_bounded:
  assumes "\<bar>x\<bar> \<le> 2 ^ 1023"
  shows "round64 x = Finite (nearest64 x)"
proof -
  have top: "nearest64 (2 ^ 1023) = 2 ^ 1023"
    using nearest64_representable [of 1 1023] by simp
  from assms have "x \<le> 2 ^ 1023" "- (2 ^ 1023) \<le> x" by linarith+
  from nearest64_mono [OF this(1)] nearest64_mono [OF this(2)]
  have "nearest64 x \<le> 2 ^ 1023" "- (2 ^ 1023) \<le> nearest64 x"
    by (simp_all only: top nearest64_minus)
  moreover have "(2::real) ^ 1023 < 2 ^ 1024" by simp
  ultimately show ?thesis by (simp add: round64_def Let_def)
qed

lemma round64_of_int:
  assumes "\<bar>k\<bar> < 2 ^ 53"
  shows "round64 (of_int k) = Finite (of_int k)"
proof -
  from assms have "real_of_int \<bar>k\<bar> < 2 ^ 53"
    by simp
  then have "\<bar>real_of_int k\<bar> \<le> 2 ^ 1023" by simp
  from round64_bounded [OF this] nearest64_of_int [OF assms] show ?thesis by simp
qed

lemma round64_0 [simp]: "round64 0 = Finite 0"
  using round64_of_int [of 0] by simp

lemma round64_1 [simp]: "round64 1 = Finite 1"
  using round64_of_int [of 1] by simp

lemma round64_sign: "score_le (round64 (of_int k)) (Finite 0) \<longleftrightarrow> k \<le> 0"
proof (cases "k \<le> 0")
  case True
  then have "real_of_int k \<le> 0" by simp
  from round64_mono [OF this] True show ?thesis by simp
next
  case False
  then have "1 \<le> real_of_int k" by simp
  from round64_mono [OF this] have "score_le (Finite 1) (round64 (of_int k))" by simp
  then have "\<not> score_le (round64 (of_int k)) (Finite 0)"
    by (cases "round64 (real_of_int k)") simp_all
  with False show ?thesis by simp
qed

lemma Date_getTime_valid: "\<bar>v\<bar> \<le> 8640000000000000 \<Longrightarrow> Date_getTime v = Finite (of_int v)"
  by (simp add: Date_getTime_def)

lemma timeUntilDeadline_guard:
  assumes "\<bar>d\<bar> \<le> 8640000000000000"
  shows "score_le (js_minus (Date_getTime d) (Finite (of_int now))) (Finite 0) \<longleftrightarrow> d \<le> now"
  using round64_sign [of "d - now"] by (simp add: Date_getTime_valid [OF assms])

lemma js_divide_NaN [simp]: "js_divide a NaN = NaN"
  by (cases a) simp_all

lemma score_le_Infinity: "s \<noteq> NaN \<Longrightarrow> score_le s Infinity"
  by (cases s) simp_all

lemma round64_numeral:
  "numeral n < (2::int) ^ 53 \<Longrightarrow> round64 (numeral n) = Finite (numeral n)"
  using round64_of_int [of "numeral n"] by simp

lemma round64_neg_numeral:
  "numeral n < (2::int) ^ 53 \<Longrightarrow> round64 (- numeral n) = Finite (- numeral n)"
  using round64_of_int [of "- numeral n"] by simp

lemma js_divide_not_NaN:
  assumes "0 < D"
  shows "js_divide (round64 p) (Finite D) \<noteq> NaN"
  using assms by (cases "round64 p") simp_all

lemma quotient_mono:
  assumes "0 \<le> p1" and "p1 \<le> p2" and "0 < D2" and "D2 \<le> D1"
  shows "score_le (js_divide (round64 p1) (Finite D1)) (js_divide (round64 p2) (Finite D2))"
proof (cases "2 ^ 1024 \<le> nearest64 p2")
  case True
  with assms(3) have "js_divide (round64 p2) (Finite D2) = Infinity"
    by (simp add: round64_def Let_def)
  moreover from assms(3,4) have "js_divide (round64 p1) (Finite D1) \<noteq> NaN"
    by (intro js_divide_not_NaN) simp
  ultimately show ?thesis by (simp add: score_le_Infinity)
next
  case False
  from assms(1) have r1: "0 \<le> nearest64 p1" by (rule nearest64_nonneg)
  from assms(2) have r12: "nearest64 p1 \<le> nearest64 p2" by (rule nearest64_mono)
  from False r1 r12 have fin: "round64 p1 = Finite (nearest64 p1)" "round64 p2 = Finite (nearest64 p2)"
    by (simp_all add: round64_def Let_def)
  from r1 r12 assms(3,4) have "nearest64 p1 / D1 \<le> nearest64 p2 / D2"
    by (intro frac_le) simp_all
  from round64_mono [OF this] assms(3,4) show ?thesis by (simp add: fin)
qed

subsection \<open>The operators on examples\<close>

lemma reverse_words_example: "reverse_words (ascii ''hello big world'') = ascii ''world big hello''"
  by (simp add: reverse_words_def ascii_def)
lemma split_on_examples:
  "split_on (1::nat) [] = [[]] \<and> split_on (1::nat) [1] = [[], []] \<and>
   split_on (1::nat) [2, 1, 3, 1] = [[2], [3], []]"
  by simp
lemma vowel_blackout_example: "vowel_blackout (ascii ''hEllo'') = [104, 9608, 108, 108, 9608]"
  by (simp add: vowel_blackout_def ascii_def)
lemma random_mask_example: "random_mask (\<lambda>k. if k = 1 then 0.9 else 0.2) (ascii ''abc'') = ascii ''a?c''"
  by (simp add: random_mask_def ascii_def upt_rec)
lemma toString_examples:
  "toString 0 = ascii ''0'' \<and> toString 1203 = ascii ''1203'' \<and> toString (- 45) = ascii ''-45''"
  by (simp add: toString_def ascii_def decimal.simps)

lemma randomTask_Some:
  assumes "randomTask r now tasks = Some i"
  shows "i < length tasks \<and> is_stale now (tasks ! i)"
proof -
  let ?refs = "stale_refs now tasks"
  let ?k = "random_index r (length ?refs)"
  from assms have k: "0 \<le> ?k" "?k < int (length ?refs)" and i: "i = ?refs ! nat ?k"
    by (auto simp: randomTask_def Let_def split: if_splits)
  from k have "nat ?k < length ?refs" by linarith
  then have "?refs ! nat ?k \<in> set ?refs" by (rule nth_mem)
  with i show ?thesis by (simp add: stale_refs_def)
qed

lemma stale_refs_staleTasks: "map ((!) tasks) (stale_refs now tasks) = staleTasks now tasks"
proof -
  have "map ((!) tasks) (filter (\<lambda>i. is_stale now (tasks ! i)) [0..<length tasks]) =
        filter (is_stale now) (map ((!) tasks) [0..<length tasks])"
    by (simp add: filter_map o_def)
  then show ?thesis by (simp add: stale_refs_def staleTasks_def map_nth)
qed

lemma random_index_range:
  assumes "0 \<le> r" "r < 1" "0 < n"
  shows "0 \<le> random_index r n \<and> random_index r n < int n"
proof -
  from assms have "0 \<le> r * real n" by simp
  then have lo: "0 \<le> random_index r n" by (simp add: random_index_def)
  from assms have "r * real n < 1 * real n" by (intro mult_strict_right_mono) simp_all
  then have "r * real n < real_of_int (int n)" by simp
  then have "random_index r n < int n" unfolding random_index_def by (simp only: floor_less_iff)
  with lo show ?thesis by simp
qed

lemma randomTask_defined:
  assumes "0 \<le> r" "r < 1" "staleTasks now tasks \<noteq> []"
  shows "\<exists>i. randomTask r now tasks = Some i"
proof -
  from assms(3) have "length (stale_refs now tasks) = length (staleTasks now tasks)"
    by (simp add: stale_refs_staleTasks [symmetric])
  with assms(3) have "0 < length (stale_refs now tasks)" by simp
  from random_index_range [OF assms(1,2) this] show ?thesis
    by (simp add: randomTask_def Let_def)
qed

lemma corruptionMethod_defined:
  assumes "0 \<le> random_method e" "random_method e < 1"
  shows "\<exists>m. corruptionMethod e = Some m"
proof -
  have "0 < length (corruptions e)" by (simp add: corruptions_def)
  from random_index_range [OF assms this] show ?thesis
    by (simp add: corruptionMethod_def Let_def)
qed

lemma tick_never_throws:
  assumes "0 \<le> random_task e" "random_task e < 1" "0 \<le> random_method e" "random_method e < 1"
  shows "thrown (corruptStaleTasks e now tasks) = None"
proof (cases "staleTasks now tasks = []")
  case True
  then show ?thesis by (simp add: corruptStaleTasks_def)
next
  case False
  from randomTask_defined [OF assms(1,2) False] obtain i
    where "randomTask (random_task e) now tasks = Some i" ..
  moreover from corruptionMethod_defined [OF assms(3,4)] obtain m
    where "corruptionMethod e = Some m" ..
  ultimately show ?thesis by (simp add: corruptStaleTasks_def)
qed

lemma corruptStaleTasks_cases:
  "store_after (corruptStaleTasks e now tasks) = tasks \<or>
   (\<exists>i m. randomTask (random_task e) now tasks = Some i \<and> i < length tasks \<and>
      description (tasks ! i) \<noteq> [] \<and> corruptionMethod e = Some m \<and>
      store_after (corruptStaleTasks e now tasks) =
        tasks[i := (tasks ! i)\<lparr> description := m (description (tasks ! i)), corrupted := True \<rparr>])"
  using randomTask_Some [of "random_task e" now tasks]
  by (auto simp: corruptStaleTasks_def split: option.splits)


subsection \<open>The handlers and the fields fixed at creation\<close>

lemma is_stale_later: "is_stale now t \<Longrightarrow> now \<le> now' \<Longrightarrow> is_stale now' t"
  by (simp add: is_stale_def Let_def)

lemma map_update_same: "i < length xs \<Longrightarrow> f y = f (xs ! i) \<Longrightarrow> map f (xs[i := y]) = map f xs"
  by (simp add: map_update list_update_same_conv)

lemma patch_tasks_fixed:
  assumes "patch_id req = None" "patch_created_at req = None" "patch_deadline req = None"
    "patch_volatility_factor req = None"
  shows "map fixed_at_creation (store (patch_tasks now rid req tasks)) = map fixed_at_creation tasks"
proof (cases "findIndex (\<lambda>t. task_id t = rid) tasks")
  case None
  then show ?thesis by (simp add: patch_tasks_def)
next
  case (Some i)
  then have "i < length tasks" using findIndex_Some by fastforce
  with Some assms show ?thesis
    by (simp add: patch_tasks_def Let_def map_update_same fixed_at_creation_def Object_assign_def)
qed

lemma patch_tasks_overwrites:
  assumes "findIndex (\<lambda>t. task_id t = rid) tasks = Some i"
    and "patch_version req = None \<or> patch_version req = Some (version (tasks ! i))"
  shows "fixed_at_creation (store (patch_tasks now rid req tasks) ! i) =
           (case patch_id req of None \<Rightarrow> task_id (tasks ! i) | Some v \<Rightarrow> v,
            case patch_created_at req of None \<Rightarrow> created_at (tasks ! i) | Some v \<Rightarrow> v,
            case patch_deadline req of None \<Rightarrow> deadline (tasks ! i) | Some v \<Rightarrow> v,
            case patch_volatility_factor req of None \<Rightarrow> volatility_factor (tasks ! i)
              | Some v \<Rightarrow> v)"
proof -
  from assms(1) have "i < length tasks" using findIndex_Some by fastforce
  with assms show ?thesis
    by (auto simp: patch_tasks_def Let_def Object_assign_def fixed_at_creation_def)
qed

lemma delete_tasks_store:
  "store (delete_tasks rid tasks) = tasks \<or>
   (\<exists>i<length tasks. store (delete_tasks rid tasks) = take i tasks @ drop (Suc i) tasks)"
proof (cases "findIndex (\<lambda>t. task_id t = rid) tasks")
  case None
  then show ?thesis by (simp add: delete_tasks_def)
next
  case (Some i)
  then have "i < length tasks" using findIndex_Some by fastforce
  with Some show ?thesis by (auto simp: delete_tasks_def)
qed

lemma corruptStaleTasks_fixed:
  "map fixed_at_creation (store_after (corruptStaleTasks e now tasks)) = map fixed_at_creation tasks"
  using corruptStaleTasks_cases [of e now tasks]
  by (auto simp: map_update_same fixed_at_creation_def)

lemma post_tasks_validation:
  "(post_title new = None \<or> post_title new = Some [] \<longrightarrow>
      http_status (post_tasks c new tasks) = 400 \<and>
      http_body (post_tasks c new tasks) = Error_body (ascii ''Title is required'') \<and>
      store (post_tasks c new tasks) = tasks \<and> \<not> broadcasts (post_tasks c new tasks)) \<and>
   (\<forall>t. post_title new = Some t \<and> t \<noteq> [] \<longrightarrow>
      http_status (post_tasks c new tasks) = 201 \<and>
      http_body (post_tasks c new tasks) = Task_body (Task c t (or_empty (post_description new))) \<and>
      store (post_tasks c new tasks) = tasks @ [Task c t (or_empty (post_description new))])"
  by (auto simp: post_tasks_def Let_def)

lemma volatility_below_one:
  "random_volatility c < 1 \<Longrightarrow> volatility_factor (Task c ttl d) < 1"
  by (simp add: Task_def)

subsection \<open>The example tick\<close>

lemma tick_A_selects: "randomTask (random_task tick_A) 40000 [task_B, task_A] = Some 1"
  by (simp add: randomTask_def stale_refs_def is_stale_def STALE_THRESHOLD_def Let_def
      random_index_def tick_A_def task_A_def task_B_def)

lemma tick_A_method: "corruptionMethod tick_A = Some vowel_blackout"
  by (simp add: corruptionMethod_def corruptions_def random_index_def tick_A_def Let_def)

lemma tick_A_store:
  "store_after (corruptStaleTasks tick_A 40000 [task_B, task_A]) =
     [task_B, task_A\<lparr> description := vowel_blackout (ascii ''hello world''), corrupted := True \<rparr>]"
proof -
  have stale: "staleTasks 40000 [task_B, task_A] = [task_A]"
    by (simp add: staleTasks_def is_stale_def STALE_THRESHOLD_def Let_def task_A_def task_B_def)
  have desc: "description task_A = ascii ''hello world''"
    by (simp add: task_A_def)
  show ?thesis
    by (simp add: corruptStaleTasks_def stale tick_A_selects tick_A_method desc)
qed

lemma tick_A_changes:
  "store_after (corruptStaleTasks tick_A 40000 [task_B, task_A]) ! 1 \<noteq> [task_B, task_A] ! 1"
proof
  assume "store_after (corruptStaleTasks tick_A 40000 [task_B, task_A]) ! 1 = [task_B, task_A] ! 1"
  then have "corrupted (store_after (corruptStaleTasks tick_A 40000 [task_B, task_A]) ! 1) =
             corrupted ([task_B, task_A] ! 1)"
    by (rule arg_cong)
  then show False
    by (simp add: tick_A_store) (simp add: task_A_def)
qed

subsection \<open>The example tasks are states of the store\<close>

lemma sinking_task_reachable:
  "store (patch_tasks 1000 (ascii ''00.25'')
            (no_fields\<lparr> patch_volatility_factor := Some (- 1), patch_version := Some 0 \<rparr>)
            (store (post_tasks env_A request_A []))) = [sinking_task]"
  by (simp add: post_tasks_def request_A_def env_A_def Task_def or_empty_def toString_def
      decimal.simps patch_tasks_def Let_def Object_assign_def no_fields_def sinking_task_def
      ascii_def)

lemma sinking_task_scores:
  "calculatePriorityScore 2000 sinking_task = round64 (- 1000 / 604798000)"
  "calculatePriorityScore 604799000 sinking_task = Finite (- 604798)"
  by (simp_all add: calculatePriorityScore_def Let_def sinking_task_def Date_getTime_def
      round64_numeral round64_neg_numeral)

lemma sinking_task_decreases:
  "\<not> score_le (calculatePriorityScore 2000 sinking_task)
              (calculatePriorityScore 604799000 sinking_task)"
proof -
  have "- 1 \<le> (- 1000 / 604798000 :: real)" by simp
  from round64_mono [OF this] have "score_le (Finite (- 1)) (round64 (- 1000 / 604798000))"
    using round64_of_int [of "- 1"] by simp
  then have "\<not> score_le (round64 (- 1000 / 604798000)) (Finite (- 604798))"
    by (cases "round64 (- 1000 / 604798000)") simp_all
  then show ?thesis unfolding sinking_task_scores .
qed

lemma near_task_product:
  "round64 (- 3 * (3602879701896397 / 2 ^ 55)) = Finite (- (5404319552844596 / 2 ^ 54))"
proof -
  have "nearest64 (- 3 * (3602879701896397 / 2 ^ 55)) =
        of_int (round_even (- 3 * (3602879701896397 / 2 ^ 55) / 2 powi (- 2 - 52))) *
          2 powi (- 2 - 52)"
    by (rule nearest64_in_binade) simp_all
  also have "round_even (- 3 * (3602879701896397 / 2 ^ 55) / 2 powi (- 2 - 52)) =
             - 5404319552844596"
    by (simp add: round_even_def Let_def)
  finally have "nearest64 (- 3 * (3602879701896397 / 2 ^ 55)) = - (5404319552844596 / 2 ^ 54)"
    by simp
  then show ?thesis by (simp add: round64_def Let_def)
qed

lemma near_task_quotient:
  "round64 (- (5404319552844596 / 2 ^ 54) / 3) = Finite (- (7205759403792795 / 2 ^ 56))"
proof -
  have "nearest64 (- (5404319552844596 / 2 ^ 54) / 3) =
        of_int (round_even (- (5404319552844596 / 2 ^ 54) / 3 / 2 powi (- 4 - 52))) *
          2 powi (- 4 - 52)"
    by (rule nearest64_in_binade) simp_all
  also have "round_even (- (5404319552844596 / 2 ^ 54) / 3 / 2 powi (- 4 - 52)) =
             - 7205759403792795"
    by (simp add: round_even_def Let_def)
  finally have "nearest64 (- (5404319552844596 / 2 ^ 54) / 3) = - (7205759403792795 / 2 ^ 56)"
    by simp
  then show ?thesis by (simp add: round64_def Let_def)
qed

lemma near_task_exact:
  "round64 (- 4 * (3602879701896397 / 2 ^ 55)) = Finite (- 4 * (3602879701896397 / 2 ^ 55))"
  "round64 (- 4 * (3602879701896397 / 2 ^ 55) / 4) = Finite (- (3602879701896397 / 2 ^ 55))"
proof -
  have a: "nearest64 (real_of_int (- 3602879701896397) * 2 powi (- 53)) =
           real_of_int (- 3602879701896397) * 2 powi (- 53)"
    by (rule nearest64_representable) simp_all
  have b: "nearest64 (real_of_int (- 3602879701896397) * 2 powi (- 55)) =
           real_of_int (- 3602879701896397) * 2 powi (- 55)"
    by (rule nearest64_representable) simp_all
  have "real_of_int (- 3602879701896397) * 2 powi (- 53) = - 4 * (3602879701896397 / 2 ^ 55)"
    by simp
  with a have "nearest64 (- 4 * (3602879701896397 / 2 ^ 55)) = - 4 * (3602879701896397 / 2 ^ 55)"
    by (simp only:)
  then show "round64 (- 4 * (3602879701896397 / 2 ^ 55)) = Finite (- 4 * (3602879701896397 / 2 ^ 55))"
    by (simp add: round64_def Let_def)
  have "real_of_int (- 3602879701896397) * 2 powi (- 55) = - 4 * (3602879701896397 / 2 ^ 55) / 4"
    by simp
  with b have "nearest64 (- 4 * (3602879701896397 / 2 ^ 55) / 4) = - 4 * (3602879701896397 / 2 ^ 55) / 4"
    by (simp only:)
  then show "round64 (- 4 * (3602879701896397 / 2 ^ 55) / 4) = Finite (- (3602879701896397 / 2 ^ 55))"
    by (simp add: round64_def Let_def)
qed

lemma near_task_scores:
  "calculatePriorityScore 604799996 near_task = Finite (- (3602879701896397 / 2 ^ 55))"
  "calculatePriorityScore 604799997 near_task = Finite (- (7205759403792795 / 2 ^ 56))"
proof -
  have t1: "js_minus (Finite (of_int 604799996)) (Date_getTime (updated_at near_task)) = Finite (- 4)"
    and d1: "js_minus (Date_getTime (deadline near_task)) (Finite (of_int 604799996)) = Finite 4"
    and t2: "js_minus (Finite (of_int 604799997)) (Date_getTime (updated_at near_task)) = Finite (- 3)"
    and d2: "js_minus (Date_getTime (deadline near_task)) (Finite (of_int 604799997)) = Finite 3"
    by (simp_all add: near_task_def Date_getTime_def round64_numeral round64_neg_numeral)
  have v: "volatility_factor near_task = 3602879701896397 / 2 ^ 55"
    by (simp add: near_task_def)
  show "calculatePriorityScore 604799996 near_task = Finite (- (3602879701896397 / 2 ^ 55))"
    unfolding calculatePriorityScore_def Let_def t1 d1 v
    by (simp only: js_times.simps js_divide.simps score_le.simps near_task_exact) simp
  have guard: "\<not> score_le (Finite 3) (Finite 0)" by simp
  have "js_divide (js_times (Finite (- 3)) (Finite (3602879701896397 / 2 ^ 55))) (Finite 3) =
        js_divide (Finite (- (5404319552844596 / 2 ^ 54))) (Finite 3)"
    by (simp only: js_times.simps near_task_product)
  also have "\<dots> = round64 (- (5404319552844596 / 2 ^ 54) / 3)" by simp
  also have "\<dots> = Finite (- (7205759403792795 / 2 ^ 56))" by (rule near_task_quotient)
  finally show "calculatePriorityScore 604799997 near_task = Finite (- (7205759403792795 / 2 ^ 56))"
    unfolding calculatePriorityScore_def Let_def t2 d2 v by (simp only: guard if_False)
qed

text \<open>
  In exact arithmetic the score of \<open>near_task\<close> is the constant \<open>- volatility_factor\<close>
  before its deadline. In doubles, \<open>-3 * 0.1\<close> is a tie that rounds away from the exact
  product, and the quotient by 3 lands one double below \<open>-0.1\<close>.
\<close>

lemma near_task_decreases:
  "\<not> score_le (calculatePriorityScore 604799996 near_task)
              (calculatePriorityScore 604799997 near_task)"
  by (simp add: near_task_scores)

lemma far_task_scores:
  "calculatePriorityScore 6000 far_task = NaN" "calculatePriorityScore 7000 far_task = NaN"
  by (simp_all add: calculatePriorityScore_def far_task_def Date_getTime_def task_A_def)

lemma near_task_reachable:
  "store (patch_tasks 604800000 (ascii ''00.25'')
            (no_fields\<lparr> patch_volatility_factor := Some (3602879701896397 / 2 ^ 55),
               patch_version := Some 0 \<rparr>)
            (store (post_tasks env_A request_A []))) = [near_task]"
  by (simp add: post_tasks_def request_A_def env_A_def Task_def or_empty_def toString_def
      decimal.simps patch_tasks_def Let_def Object_assign_def no_fields_def near_task_def
      ascii_def)

section \<open>Version-gated PATCH\<close>

text \<open>
  C1. For a stored task, a PATCH that is accepted (the id is found and the body carries
  no version, or the task's current version) answers 200 with the task as it now stands,
  whose version is the prior version plus 1 and whose \<open>updated_at\<close> is the clock value
  \<open>now\<close>. A PATCH that is not answered with 200 leaves the store, and so every
  version, as it was.
\<close>

theorem patch_version_step:
  "(findIndex (\<lambda>t. task_id t = rid) tasks = Some i \<and>
      (patch_version req = None \<or> patch_version req = Some (version (tasks ! i)))
    \<longrightarrow> (let out = patch_tasks now rid req tasks
         in http_status out = 200 \<and> http_body out = Task_body (store out ! i) \<and>
            version (store out ! i) = version (tasks ! i) + 1 \<and>
            updated_at (store out ! i) = now)) \<and>
   (http_status (patch_tasks now rid req tasks) \<noteq> 200
    \<longrightarrow> store (patch_tasks now rid req tasks) = tasks \<and>
        map version (store (patch_tasks now rid req tasks)) = map version tasks)"
proof (intro conjI impI)
  assume acc: "findIndex (\<lambda>t. task_id t = rid) tasks = Some i \<and>
      (patch_version req = None \<or> patch_version req = Some (version (tasks ! i)))"
  then have i: "i < length tasks"
    using findIndex_Some by fastforce
  from acc i show "let out = patch_tasks now rid req tasks
         in http_status out = 200 \<and> http_body out = Task_body (store out ! i) \<and>
            version (store out ! i) = version (tasks ! i) + 1 \<and>
            updated_at (store out ! i) = now"
    by (auto simp: patch_tasks_def Let_def Object_assign_def)
next
  assume "http_status (patch_tasks now rid req tasks) \<noteq> 200"
  then show "store (patch_tasks now rid req tasks) = tasks"
    by (auto simp: patch_tasks_def Let_def split: option.splits if_splits)
  then show "map version (store (patch_tasks now rid req tasks)) = map version tasks"
    by simp
qed

theorem patch_version_step_witness:
  "http_status (patch_tasks 5000 (ascii ''00.25'') (no_fields\<lparr> patch_status := Some (ascii ''Done''), patch_version := Some 3 \<rparr>) [task_B, task_A]) = 200 \<and>
   version (store (patch_tasks 5000 (ascii ''00.25'') (no_fields\<lparr> patch_status := Some (ascii ''Done''), patch_version := Some 3 \<rparr>) [task_B, task_A]) ! 1) = 4 \<and>
   updated_at (store (patch_tasks 5000 (ascii ''00.25'') (no_fields\<lparr> patch_status := Some (ascii ''Done''), patch_version := Some 3 \<rparr>) [task_B, task_A]) ! 1) = 5000 \<and>
   http_status (patch_tasks 5000 (ascii ''00.25'') (no_fields\<lparr> patch_version := Some 2 \<rparr>) [task_B, task_A]) = 409 \<and>
   map version (store (patch_tasks 5000 (ascii ''00.25'') (no_fields\<lparr> patch_version := Some 2 \<rparr>) [task_B, task_A])) = [0, 3]"
proof -
  let ?ok = "no_fields\<lparr> patch_status := Some (ascii ''Done''), patch_version := Some 3 \<rparr>"
  let ?stale = "no_fields\<lparr> patch_version := Some 2 \<rparr>"
  have found: "findIndex (\<lambda>t. task_id t = ascii ''00.25'') [task_B, task_A] = Some 1"
    by (simp add: task_A_def task_B_def)
  have ok: "patch_version ?ok = Some (version ([task_B, task_A] ! 1))"
    by (simp add: no_fields_def task_A_def)
  have rejected: "http_status (patch_tasks 5000 (ascii ''00.25'') ?stale [task_B, task_A]) = 409"
    by (simp add: patch_tasks_def Let_def no_fields_def task_A_def task_B_def)
  from patch_version_step [of "ascii ''00.25''" "[task_B, task_A]" 1 ?ok 5000] found ok
    patch_version_step [of "ascii ''00.25''" "[task_B, task_A]" 1 ?stale 5000] rejected
  show ?thesis
    by (simp add: Let_def task_A_def task_B_def)
qed

text \<open>
  C2. For an id that is found, the reply is 409 exactly when the body carries a version
  different from the task's current one. The 409 body holds the stored version and the
  stored task, and the store is unchanged and nothing is broadcast. With no version in the
  body the reply is 200 and the stored task is the merge of the body into it, stamped and
  with its version incremented.
\<close>

theorem patch_conflict_iff:
  assumes "findIndex (\<lambda>t. task_id t = rid) tasks = Some i"
  shows "(http_status (patch_tasks now rid req tasks) = 409
            \<longleftrightarrow> (\<exists>v. patch_version req = Some v \<and> v \<noteq> version (tasks ! i))) \<and>
         (http_status (patch_tasks now rid req tasks) = 409
            \<longrightarrow> http_body (patch_tasks now rid req tasks) =
                  Conflict_body (ascii ''Version conflict'') (version (tasks ! i)) (tasks ! i) \<and>
                store (patch_tasks now rid req tasks) = tasks \<and>
                \<not> broadcasts (patch_tasks now rid req tasks)) \<and>
         (patch_version req = None
            \<longrightarrow> http_status (patch_tasks now rid req tasks) = 200 \<and>
                store (patch_tasks now rid req tasks) =
                  tasks[i := (Object_assign (tasks ! i) req)
                               \<lparr> updated_at := now, version := version (tasks ! i) + 1 \<rparr>])"
  using assms
  by (cases "patch_version req") (auto simp: patch_tasks_def Let_def Object_assign_def)

theorem patch_conflict_iff_witness:
  "http_status (patch_tasks 5000 (ascii ''00.25'') (no_fields\<lparr> patch_status := Some (ascii ''Done''), patch_version := Some 2 \<rparr>) [task_B, task_A]) = 409 \<and>
   http_body (patch_tasks 5000 (ascii ''00.25'') (no_fields\<lparr> patch_status := Some (ascii ''Done''), patch_version := Some 2 \<rparr>) [task_B, task_A]) =
     Conflict_body (ascii ''Version conflict'') 3 task_A \<and>
   store (patch_tasks 5000 (ascii ''00.25'') (no_fields\<lparr> patch_status := Some (ascii ''Done''), patch_version := Some 2 \<rparr>) [task_B, task_A]) = [task_B, task_A] \<and>
   http_status (patch_tasks 5000 (ascii ''00.25'') (no_fields\<lparr> patch_status := Some (ascii ''Done'') \<rparr>) [task_B, task_A]) = 200 \<and>
   store (patch_tasks 5000 (ascii ''00.25'') (no_fields\<lparr> patch_status := Some (ascii ''Done'') \<rparr>) [task_B, task_A]) =
     [task_B, task_A\<lparr> status := ascii ''Done'', updated_at := 5000, version := 4 \<rparr>]"
proof -
  let ?stale = "no_fields\<lparr> patch_status := Some (ascii ''Done''), patch_version := Some 2 \<rparr>"
  let ?blind = "no_fields\<lparr> patch_status := Some (ascii ''Done'') \<rparr>"
  have found: "findIndex (\<lambda>t. task_id t = ascii ''00.25'') [task_B, task_A] = Some 1"
    by (simp add: task_A_def task_B_def)
  have differs: "\<exists>v. patch_version ?stale = Some v \<and> v \<noteq> version ([task_B, task_A] ! 1)"
    by (simp add: no_fields_def task_A_def)
  have omitted: "patch_version ?blind = None"
    by (simp add: no_fields_def)
  from patch_conflict_iff [OF found, of 5000 ?stale] differs
    patch_conflict_iff [OF found, of 5000 ?blind] omitted
  show ?thesis
    by (simp add: Object_assign_def no_fields_def task_A_def)
qed

section \<open>The priority score\<close>

text \<open>
  C3, as stated, fails: a PATCH can store a deadline outside the range of \<open>Date\<close>, and
  then \<open>new Date(task.deadline).getTime()\<close> is \<open>NaN\<close> and so is the score, at a time past
  the stored deadline and at a time before it.
\<close>

theorem score_invalid_deadline_counterexample:
  "http_status (patch_tasks 5000 (ascii ''00.25'')
      (no_fields\<lparr> patch_deadline := Some (- 9000000000000000), patch_version := Some 3 \<rparr>)
      [task_B, task_A]) = 200 \<and>
   store (patch_tasks 5000 (ascii ''00.25'')
      (no_fields\<lparr> patch_deadline := Some (- 9000000000000000), patch_version := Some 3 \<rparr>)
      [task_B, task_A]) = [task_B, past_task] \<and>
   deadline past_task \<le> 6000 \<and>
   calculatePriorityScore 6000 past_task = NaN \<and>
   store (patch_tasks 5000 (ascii ''00.25'')
      (no_fields\<lparr> patch_deadline := Some 9000000000000000, patch_version := Some 3 \<rparr>)
      [task_B, task_A]) = [task_B, far_task] \<and>
   6000 < deadline far_task \<and>
   calculatePriorityScore 6000 far_task = NaN"
  by (simp add: patch_tasks_def Let_def Object_assign_def no_fields_def task_A_def task_B_def
      past_task_def far_task_def calculatePriorityScore_def Date_getTime_def)

text \<open>
  C3, amended. For a task whose deadline is a valid time value (within 8.64e15 ms of the
  epoch), the score is \<open>Infinity\<close> whenever \<open>now\<close> is at or past the deadline, whatever
  \<open>updated_at\<close> and \<open>volatility_factor\<close> are, and otherwise it is
  \<open>((now - updated_at) * volatility_factor) / (deadline - now)\<close> in the arithmetic of
  JavaScript numbers. For a deadline outside that range it is \<open>NaN\<close>.
\<close>

theorem score_sentinel_and_formula:
  "(\<bar>deadline t\<bar> \<le> 8640000000000000 \<and> deadline t \<le> now \<longrightarrow>
      calculatePriorityScore now t = Infinity) \<and>
   (\<bar>deadline t\<bar> \<le> 8640000000000000 \<and> now < deadline t \<longrightarrow>
      calculatePriorityScore now t =
        js_divide
          (js_times (js_minus (Finite (of_int now)) (Date_getTime (updated_at t)))
             (Finite (volatility_factor t)))
          (js_minus (Finite (of_int (deadline t))) (Finite (of_int now)))) \<and>
   (8640000000000000 < \<bar>deadline t\<bar> \<longrightarrow> calculatePriorityScore now t = NaN)"
proof (intro conjI impI)
  assume a: "\<bar>deadline t\<bar> \<le> 8640000000000000 \<and> deadline t \<le> now"
  with timeUntilDeadline_guard [of "deadline t" now]
  show "calculatePriorityScore now t = Infinity"
    by (simp add: calculatePriorityScore_def Let_def)
next
  assume a: "\<bar>deadline t\<bar> \<le> 8640000000000000 \<and> now < deadline t"
  with timeUntilDeadline_guard [of "deadline t" now]
  show "calculatePriorityScore now t =
        js_divide
          (js_times (js_minus (Finite (of_int now)) (Date_getTime (updated_at t)))
             (Finite (volatility_factor t)))
          (js_minus (Finite (of_int (deadline t))) (Finite (of_int now)))"
    by (simp add: calculatePriorityScore_def Let_def Date_getTime_valid)
next
  assume "8640000000000000 < \<bar>deadline t\<bar>"
  then show "calculatePriorityScore now t = NaN"
    by (simp add: calculatePriorityScore_def Let_def Date_getTime_def)
qed

theorem score_sentinel_and_formula_witness:
  "calculatePriorityScore 604800000 task_A = Infinity \<and>
   calculatePriorityScore 700000000 task_A = Infinity \<and>
   calculatePriorityScore 2000 task_A = round64 (550 / 604798000) \<and>
   calculatePriorityScore 2000 far_task = NaN"
proof -
  have valid: "\<bar>deadline task_A\<bar> \<le> 8640000000000000" by (simp add: task_A_def)
  have invalid: "8640000000000000 < \<bar>deadline far_task\<bar>" by (simp add: far_task_def)
  from score_sentinel_and_formula [of task_A 604800000]
    score_sentinel_and_formula [of task_A 700000000]
    score_sentinel_and_formula [of task_A 2000]
    score_sentinel_and_formula [of far_task 2000] valid invalid
  show ?thesis
    by (simp add: task_A_def Date_getTime_def round64_numeral)
qed


section \<open>Fields fixed at creation\<close>

text \<open>
  C4, as stated, fails: \<open>Object.assign\<close> copies every key of the body, so an accepted
  PATCH whose body carries \<open>deadline\<close> replaces the deadline the task was created with.
\<close>

theorem patch_overwrites_deadline_counterexample:
  "http_status (patch_tasks 5000 (ascii ''00.25'')
      (no_fields\<lparr> patch_deadline := Some 0, patch_version := Some 3 \<rparr>) [task_B, task_A]) = 200 \<and>
   deadline ([task_B, task_A] ! 1) = 604800000 \<and>
   deadline (store (patch_tasks 5000 (ascii ''00.25'')
      (no_fields\<lparr> patch_deadline := Some 0, patch_version := Some 3 \<rparr>) [task_B, task_A]) ! 1) = 0"
  by (simp add: patch_tasks_def Let_def Object_assign_def no_fields_def task_A_def task_B_def)

text \<open>
  C4, amended. The id, \<open>created_at\<close>, \<open>deadline\<close> and \<open>volatility_factor\<close> of every
  stored task are left as they are by every PATCH whose body carries none of these four
  keys, by every POST (which only appends), by every DELETE (which only removes one task)
  and by every run of the corruption engine.
\<close>

theorem fixed_fields_preserved:
  "(patch_id req = None \<and> patch_created_at req = None \<and> patch_deadline req = None \<and>
      patch_volatility_factor req = None \<longrightarrow>
      map fixed_at_creation (store (patch_tasks now rid req tasks)) = map fixed_at_creation tasks) \<and>
   take (length tasks) (store (post_tasks c new tasks)) = tasks \<and>
   (store (delete_tasks rid tasks) = tasks \<or>
      (\<exists>i<length tasks. store (delete_tasks rid tasks) = take i tasks @ drop (Suc i) tasks)) \<and>
   map fixed_at_creation (store_after (corruptStaleTasks e now tasks)) = map fixed_at_creation tasks"
proof -
  have "take (length tasks) (store (post_tasks c new tasks)) = tasks"
    by (simp add: post_tasks_def Let_def split: option.splits)
  with patch_tasks_fixed [of req now rid tasks] delete_tasks_store [of rid tasks]
    corruptStaleTasks_fixed [of e now tasks]
  show ?thesis by blast
qed

theorem fixed_fields_preserved_witness:
  "map fixed_at_creation (store (patch_tasks 5000 (ascii ''00.25'')
      (no_fields\<lparr> patch_status := Some (ascii ''Done''), patch_version := Some 3 \<rparr>) [task_B, task_A])) =
     [fixed_at_creation task_B, fixed_at_creation task_A] \<and>
   store (patch_tasks 5000 (ascii ''00.25'')
      (no_fields\<lparr> patch_status := Some (ascii ''Done''), patch_version := Some 3 \<rparr>) [task_B, task_A]) \<noteq>
     [task_B, task_A] \<and>
   take (length [task_B, task_A]) (store (post_tasks env_A request_A [task_B, task_A])) =
     [task_B, task_A] \<and>
   store (delete_tasks (ascii ''5000.75'') [task_B, task_A]) = [task_A] \<and>
   map fixed_at_creation (store_after (corruptStaleTasks tick_A 40000 [task_B, task_A])) =
     [fixed_at_creation task_B, fixed_at_creation task_A]"
proof -
  let ?req = "no_fields\<lparr> patch_status := Some (ascii ''Done''), patch_version := Some 3 \<rparr>"
  have absent: "patch_id ?req = None \<and> patch_created_at ?req = None \<and> patch_deadline ?req = None \<and>
      patch_volatility_factor ?req = None"
    by (simp add: no_fields_def)
  have moved: "store (patch_tasks 5000 (ascii ''00.25'') ?req [task_B, task_A]) \<noteq> [task_B, task_A]"
    by (simp add: patch_tasks_def Let_def Object_assign_def no_fields_def task_A_def task_B_def)
  have deleted: "store (delete_tasks (ascii ''5000.75'') [task_B, task_A]) = [task_A]"
    by (simp add: delete_tasks_def task_B_def)
  from fixed_fields_preserved [of ?req 5000 "ascii ''00.25''" "[task_B, task_A]" env_A request_A tick_A]
    absent moved deleted
    fixed_fields_preserved [of ?req 40000 "ascii ''5000.75''" "[task_B, task_A]" env_A request_A tick_A]
  show ?thesis by simp
qed

section \<open>Creating tasks\<close>

text \<open>
  C5 on the code: a title of three spaces is not rejected. The handler answers 201,
  appends the task and broadcasts, where the claim has 400 and no task added.
\<close>

theorem post_accepts_blank_title:
  "http_status (post_tasks c \<lparr> post_title = Some (ascii ''   ''), post_description = d \<rparr> tasks) = 201 \<and>
   store (post_tasks c \<lparr> post_title = Some (ascii ''   ''), post_description = d \<rparr> tasks) =
     tasks @ [Task c (ascii ''   '') (or_empty d)] \<and>
   broadcasts (post_tasks c \<lparr> post_title = Some (ascii ''   ''), post_description = d \<rparr> tasks)"
  by (simp add: post_tasks_def Let_def ascii_def)

text \<open>
  C6, as stated, fails: \<open>Math.random()\<close> may return 0, and then the
  \<open>volatility_factor\<close> is 0.1, not above it.
\<close>

theorem volatility_lower_bound_counterexample:
  "http_status (post_tasks (env_A\<lparr> random_volatility := 0 \<rparr>) request_A []) = 201 \<and>
   \<not> 1 / 10 < volatility_factor (last (store (post_tasks (env_A\<lparr> random_volatility := 0 \<rparr>) request_A [])))"
  by (simp add: post_tasks_def Let_def request_A_def Task_def ascii_def)

text \<open>
  C6, amended. For every draw in \<open>[0, 1)\<close>, a task created by a POST answered 201 has
  version 0 and status Todo, its deadline is 604800000 ms (7 days) after the clock value
  read for it at creation, which is 7 days after \<open>created_at\<close> when both reads of the
  clock agree, and its \<open>volatility_factor\<close> is at least 0.1 and at most 1.0.
\<close>

theorem created_task_initial:
  assumes "0 \<le> random_volatility c" and "random_volatility c < 1"
    and "http_status (post_tasks c new tasks) = 201"
  shows "\<exists>t. http_body (post_tasks c new tasks) = Task_body t \<and>
             store (post_tasks c new tasks) = tasks @ [t] \<and>
             version t = 0 \<and> status t = ascii ''Todo'' \<and>
             deadline t = clock_deadline c + 604800000 \<and>
             (clock_created_at c = clock_deadline c \<longrightarrow> deadline t = created_at t + 604800000) \<and>
             1 / 10 \<le> volatility_factor t \<and> volatility_factor t \<le> 1"
proof -
  from assms(3) obtain ttl where ttl: "post_title new = Some ttl" "ttl \<noteq> []"
    by (auto simp: post_tasks_def split: option.splits if_splits)
  let ?t = "Task c ttl (or_empty (post_description new))"
  from ttl have "http_body (post_tasks c new tasks) = Task_body ?t"
    and "store (post_tasks c new tasks) = tasks @ [?t]"
    by (simp_all add: post_tasks_def Let_def)
  moreover have "version ?t = 0" "status ?t = ascii ''Todo''"
    "deadline ?t = clock_deadline c + 604800000"
    "clock_created_at c = clock_deadline c \<longrightarrow> deadline ?t = created_at ?t + 604800000"
    by (simp_all add: Task_def)
  moreover from assms(1,2) have "1 / 10 \<le> volatility_factor ?t" "volatility_factor ?t \<le> 1"
    by (simp_all add: Task_def)
  ultimately show ?thesis by blast
qed

theorem created_task_initial_witness:
  "http_status (post_tasks env_A request_A [task_B]) = 201 \<and>
   (\<exists>t. http_body (post_tasks env_A request_A [task_B]) = Task_body t \<and>
        store (post_tasks env_A request_A [task_B]) = [task_B, t] \<and>
        version t = 0 \<and> status t = ascii ''Todo'' \<and> deadline t = 604800000 \<and>
        created_at t = 0 \<and> 1 / 10 \<le> volatility_factor t \<and> volatility_factor t \<le> 1)"
proof -
  have draw: "0 \<le> random_volatility env_A" "random_volatility env_A < 1"
    by (simp_all add: env_A_def)
  have created: "http_status (post_tasks env_A request_A [task_B]) = 201"
    by (simp add: post_tasks_def request_A_def Let_def ascii_def)
  from created_task_initial [OF draw created] obtain t where
    t: "http_body (post_tasks env_A request_A [task_B]) = Task_body t"
      "store (post_tasks env_A request_A [task_B]) = [task_B] @ [t]"
      "version t = 0" "status t = ascii ''Todo''"
      "deadline t = clock_deadline env_A + 604800000"
      "clock_created_at env_A = clock_deadline env_A \<longrightarrow> deadline t = created_at t + 604800000"
      "1 / 10 \<le> volatility_factor t" "volatility_factor t \<le> 1"
    by blast
  then have "deadline t = 604800000" "created_at t = 0"
    by (simp_all add: env_A_def)
  with t created show ?thesis by auto
qed

section \<open>Growth of the score\<close>

text \<open>
  C7, as stated, fails, at times after the update and before the deadline. For a task
  whose \<open>volatility_factor\<close> a PATCH made negative the score decreases. For a task with
  a deadline outside the range of \<open>Date\<close> the score is \<open>NaN\<close> at both times, and
  \<open>NaN <= NaN\<close> is false.
\<close>

theorem score_growth_counterexample:
  "updated_at sinking_task \<le> 2000 \<and> (2000::int) \<le> 604799000 \<and>
   604799000 < deadline sinking_task \<and>
   \<not> score_le (calculatePriorityScore 2000 sinking_task)
              (calculatePriorityScore 604799000 sinking_task) \<and>
   0 \<le> volatility_factor far_task \<and> updated_at far_task \<le> 6000 \<and>
   (6000::int) \<le> 7000 \<and> 7000 < deadline far_task \<and>
   \<not> score_le (calculatePriorityScore 6000 far_task) (calculatePriorityScore 7000 far_task)"
proof -
  have "updated_at sinking_task \<le> 2000" "604799000 < deadline sinking_task"
    by (simp_all add: sinking_task_def)
  moreover have "0 \<le> volatility_factor far_task" "updated_at far_task \<le> 6000"
    "7000 < deadline far_task"
    by (simp_all add: far_task_def task_A_def)
  moreover have "\<not> score_le (calculatePriorityScore 6000 far_task)
                          (calculatePriorityScore 7000 far_task)"
    by (simp add: far_task_scores)
  ultimately show ?thesis
    using sinking_task_decreases by simp
qed

text \<open>
  C7, amended. For a task whose \<open>updated_at\<close> and \<open>deadline\<close> are valid time values and
  whose \<open>volatility_factor\<close> is a finite number that is not negative, the score does not
  decrease from \<open>now1\<close> to \<open>now2\<close> when \<open>updated_at \<le> now1 \<le> now2 < deadline\<close>. The
  score is the one the program computes, with every operation rounded to a double.

  The times are those at which the program can evaluate the score of the task, and the
  restriction is needed: before the update the product is negative, and its rounding can
  make the score decrease although \<open>volatility_factor \<ge> 0\<close> and \<open>updated_at \<le> deadline\<close>
  (\<open>near_task_decreases\<close>: -0.1 four milliseconds before the deadline, one unit in the
  last place below it a millisecond later).
\<close>

theorem score_nondecreasing:
  assumes "0 \<le> volatility_factor t"
    and "\<bar>updated_at t\<bar> \<le> 8640000000000000" and "\<bar>deadline t\<bar> \<le> 8640000000000000"
    and "updated_at t \<le> now1" and "now1 \<le> now2" and "now2 < deadline t"
  shows "score_le (calculatePriorityScore now1 t) (calculatePriorityScore now2 t)"
proof -
  define u d v where "u = updated_at t" and "d = deadline t" and "v = volatility_factor t"
  define T where "T n = nearest64 (real_of_int (n - u))" for n
  define D where "D n = nearest64 (real_of_int (d - n))" for n
  have tsu: "js_minus (Finite (of_int n)) (Date_getTime u) = Finite (T n)"
    if "u \<le> n" "n < d" for n
  proof -
    from that assms(2,3) have "\<bar>real_of_int (n - u)\<bar> \<le> 17280000000000000"
      unfolding u_def d_def by linarith
    then have "\<bar>real_of_int (n - u)\<bar> \<le> 2 ^ 1023" by simp
    from round64_bounded [OF this] assms(2) show ?thesis
      by (simp add: Date_getTime_valid u_def T_def)
  qed
  have tud: "js_minus (Date_getTime d) (Finite (of_int n)) = Finite (D n)"
    if "u \<le> n" "n < d" for n
  proof -
    from that assms(2,3) have "\<bar>real_of_int (d - n)\<bar> \<le> 17280000000000000"
      unfolding u_def d_def by linarith
    then have "\<bar>real_of_int (d - n)\<bar> \<le> 2 ^ 1023" by simp
    from round64_bounded [OF this] assms(3) show ?thesis
      by (simp add: Date_getTime_valid d_def D_def)
  qed
  have n1: "u \<le> now1" "now1 < d" and n2: "u \<le> now2" "now2 < d"
    using assms(4-6) by (simp_all add: u_def d_def)
  have Dpos: "1 \<le> D n" if "n < d" for n
  proof -
    from that have "1 \<le> real_of_int (d - n)" by simp
    from nearest64_mono [OF this] nearest64_of_int [of 1] show ?thesis by (simp add: D_def)
  qed
  have score_at: "calculatePriorityScore n t = js_divide (round64 (T n * v)) (Finite (D n))"
    if "u \<le> n" "n < d" for n
    using tsu [OF that] tud [OF that] Dpos [OF that(2)]
    by (simp add: calculatePriorityScore_def Let_def u_def [symmetric] d_def [symmetric]
        v_def [symmetric])
  have "0 \<le> T now1"
    unfolding T_def using n1 by (intro nearest64_nonneg) simp
  moreover have "T now1 \<le> T now2"
    unfolding T_def using assms(5) by (intro nearest64_mono) simp
  ultimately have "0 \<le> T now1 * v" "T now1 * v \<le> T now2 * v"
    using assms(1) by (simp_all add: v_def mult_right_mono)
  moreover have "0 < D now2" using Dpos [OF n2(2)] by simp
  moreover have "D now2 \<le> D now1"
    unfolding D_def using assms(5) by (intro nearest64_mono) simp
  ultimately have "score_le (js_divide (round64 (T now1 * v)) (Finite (D now1)))
                            (js_divide (round64 (T now2 * v)) (Finite (D now2)))"
    by (rule quotient_mono)
  then show ?thesis by (simp only: score_at [OF n1] score_at [OF n2])
qed

theorem score_nondecreasing_witness:
  "0 \<le> volatility_factor task_A \<and> updated_at task_A \<le> 2000 \<and> (2000::int) \<le> 3000 \<and>
   3000 < deadline task_A \<and>
   score_le (calculatePriorityScore 2000 task_A) (calculatePriorityScore 3000 task_A) \<and>
   calculatePriorityScore 2000 task_A = round64 (550 / 604798000) \<and>
   calculatePriorityScore 3000 task_A = round64 (1100 / 604797000)"
proof -
  have hyps: "0 \<le> volatility_factor task_A" "\<bar>updated_at task_A\<bar> \<le> 8640000000000000"
    "\<bar>deadline task_A\<bar> \<le> 8640000000000000" "updated_at task_A \<le> 2000"
    "(2000::int) \<le> 3000" "3000 < deadline task_A"
    by (simp_all add: task_A_def)
  have "calculatePriorityScore 2000 task_A = round64 (550 / 604798000)"
    "calculatePriorityScore 3000 task_A = round64 (1100 / 604797000)"
    by (simp_all add: calculatePriorityScore_def Let_def task_A_def Date_getTime_def
        round64_numeral)
  with score_nondecreasing [OF hyps] hyps show ?thesis by simp
qed


section \<open>The corruption engine touches stale Doing tasks only\<close>

text \<open>
  C8. The task a tick selects has status Doing and \<open>now - updated_at\<close> above the stale
  threshold of 30000 ms, so it is neither Todo nor Done, whatever else the store holds;
  and a task the tick changes is the selected one.
\<close>

theorem corruption_selects_only_stale_doing:
  "(randomTask r now tasks = Some i \<longrightarrow>
      i < length tasks \<and> status (tasks ! i) = ascii ''Doing'' \<and>
      now - updated_at (tasks ! i) > 30 * 1000 \<and>
      status (tasks ! i) \<noteq> ascii ''Todo'' \<and> status (tasks ! i) \<noteq> ascii ''Done'') \<and>
   (\<forall>j<length tasks.
      store_after (corruptStaleTasks e now tasks) ! j \<noteq> tasks ! j \<longrightarrow>
        randomTask (random_task e) now tasks = Some j \<and>
        status (tasks ! j) = ascii ''Doing'' \<and> now - updated_at (tasks ! j) > 30 * 1000)"
proof (rule conjI)
  show "randomTask r now tasks = Some i \<longrightarrow>
      i < length tasks \<and> status (tasks ! i) = ascii ''Doing'' \<and>
      now - updated_at (tasks ! i) > 30 * 1000 \<and>
      status (tasks ! i) \<noteq> ascii ''Todo'' \<and> status (tasks ! i) \<noteq> ascii ''Done''"
  proof (rule impI)
    assume "randomTask r now tasks = Some i"
    from randomTask_Some [OF this] show "i < length tasks \<and> status (tasks ! i) = ascii ''Doing'' \<and>
      now - updated_at (tasks ! i) > 30 * 1000 \<and>
      status (tasks ! i) \<noteq> ascii ''Todo'' \<and> status (tasks ! i) \<noteq> ascii ''Done''"
      by (simp add: is_stale_def Let_def STALE_THRESHOLD_def)
  qed
next
  show "\<forall>j<length tasks.
      store_after (corruptStaleTasks e now tasks) ! j \<noteq> tasks ! j \<longrightarrow>
        randomTask (random_task e) now tasks = Some j \<and>
        status (tasks ! j) = ascii ''Doing'' \<and> now - updated_at (tasks ! j) > 30 * 1000"
  proof (intro allI impI)
    fix j
    assume j: "j < length tasks"
      and changed: "store_after (corruptStaleTasks e now tasks) ! j \<noteq> tasks ! j"
    from corruptStaleTasks_cases [of e now tasks] changed obtain i m
      where sel: "randomTask (random_task e) now tasks = Some i"
        and upd: "store_after (corruptStaleTasks e now tasks) =
          tasks[i := (tasks ! i)\<lparr> description := m (description (tasks ! i)), corrupted := True \<rparr>]"
      by auto
    from changed upd have "i = j"
      by (cases "i = j") simp_all
    with sel have sel_j: "randomTask (random_task e) now tasks = Some j" by simp
    from randomTask_Some [OF sel_j] sel_j
    show "randomTask (random_task e) now tasks = Some j \<and>
        status (tasks ! j) = ascii ''Doing'' \<and> now - updated_at (tasks ! j) > 30 * 1000"
      by (simp add: is_stale_def Let_def STALE_THRESHOLD_def)
  qed
qed

theorem corruption_selects_only_stale_doing_witness:
  "randomTask 0.5 40000 [task_B, task_A] = Some 1 \<and>
   status ([task_B, task_A] ! 1) = ascii ''Doing'' \<and>
   40000 - updated_at ([task_B, task_A] ! 1) > 30 * 1000 \<and>
   store_after (corruptStaleTasks tick_A 40000 [task_B, task_A]) ! 1 \<noteq> [task_B, task_A] ! 1 \<and>
   randomTask (random_task tick_A) 40000 [task_B, task_A] = Some 1"
proof -
  have sel: "randomTask 0.5 40000 [task_B, task_A] = Some 1"
    using tick_A_selects by (simp add: tick_A_def)
  note changed = tick_A_changes
  from corruption_selects_only_stale_doing [of "0.5" 40000 "[task_B, task_A]" 1 tick_A] sel changed
  show ?thesis by simp
qed

section \<open>Snapshots and pending shadows\<close>

text \<open>
  C9. After a \<open>tasks_updated\<close> snapshot the local list has one entry per snapshot entry,
  in order: the shadow where \<open>pendingUpdates\<close> has one for the entry's id, and the
  snapshot's entry itself where it has none. The map of shadows is not changed.
\<close>

theorem snapshot_keeps_shadows:
  "pendingUpdates (tasks_updated c snapshot) = pendingUpdates c \<and>
   length (local_tasks (tasks_updated c snapshot)) = length snapshot \<and>
   (\<forall>k<length snapshot.
      (\<forall>shadow. pendingUpdates c (task_id (snapshot ! k)) = Some shadow \<longrightarrow>
         local_tasks (tasks_updated c snapshot) ! k = shadow) \<and>
      (pendingUpdates c (task_id (snapshot ! k)) = None \<longrightarrow>
         local_tasks (tasks_updated c snapshot) ! k = snapshot ! k))"
  by (simp add: tasks_updated_def)

theorem snapshot_keeps_shadows_witness:
  "pendingUpdates client_A (task_id (snapshot_A ! 0)) = Some shadow_A \<and>
   local_tasks (tasks_updated client_A snapshot_A) ! 0 = shadow_A \<and>
   shadow_A \<noteq> snapshot_A ! 0 \<and>
   pendingUpdates client_A (task_id (snapshot_A ! 1)) = None \<and>
   local_tasks (tasks_updated client_A snapshot_A) ! 1 = with_score task_B (Finite 0)"
proof -
  have has: "pendingUpdates client_A (task_id (snapshot_A ! 0)) = Some shadow_A"
    by (simp add: client_A_def snapshot_A_def with_score_def task_A_def)
  have hasnt: "pendingUpdates client_A (task_id (snapshot_A ! 1)) = None"
    by (simp add: client_A_def snapshot_A_def with_score_def task_B_def)
  have differ: "shadow_A \<noteq> snapshot_A ! 0"
    by (simp add: shadow_A_def snapshot_A_def with_score_def task_A_def)
  from snapshot_keeps_shadows [of client_A snapshot_A]
  have "\<forall>k<length snapshot_A.
      (\<forall>shadow. pendingUpdates client_A (task_id (snapshot_A ! k)) = Some shadow \<longrightarrow>
         local_tasks (tasks_updated client_A snapshot_A) ! k = shadow) \<and>
      (pendingUpdates client_A (task_id (snapshot_A ! k)) = None \<longrightarrow>
         local_tasks (tasks_updated client_A snapshot_A) ! k = snapshot_A ! k)"
    by simp
  from this [rule_format, of 0] this [rule_format, of 1] has hasnt differ
  show ?thesis by (simp add: snapshot_A_def)
qed

section \<open>What a corruption changes\<close>

text \<open>
  C10. A run of the corruption engine keeps the length of the store and, for every
  stored task, its version, \<open>updated_at\<close>, status, title, deadline,
  \<open>volatility_factor\<close>, id and \<open>created_at\<close>; every task other than the selected one is
  unchanged; and a task it did change passes the filter of stale Doing tasks at every
  later time, so it stays eligible.
\<close>

theorem corruption_frame:
  "let after = store_after (corruptStaleTasks e now tasks)
   in length after = length tasks \<and>
      (\<forall>j<length tasks.
         version (after ! j) = version (tasks ! j) \<and>
         updated_at (after ! j) = updated_at (tasks ! j) \<and>
         status (after ! j) = status (tasks ! j) \<and>
         title (after ! j) = title (tasks ! j) \<and>
         deadline (after ! j) = deadline (tasks ! j) \<and>
         volatility_factor (after ! j) = volatility_factor (tasks ! j) \<and>
         task_id (after ! j) = task_id (tasks ! j) \<and>
         created_at (after ! j) = created_at (tasks ! j) \<and>
         (randomTask (random_task e) now tasks \<noteq> Some j \<longrightarrow> after ! j = tasks ! j) \<and>
         (after ! j \<noteq> tasks ! j \<longrightarrow> (\<forall>now'. now \<le> now' \<longrightarrow> is_stale now' (after ! j))))"
proof -
  consider (same) "store_after (corruptStaleTasks e now tasks) = tasks"
    | (hit) i m where "randomTask (random_task e) now tasks = Some i" "i < length tasks"
        "store_after (corruptStaleTasks e now tasks) =
          tasks[i := (tasks ! i)\<lparr> description := m (description (tasks ! i)), corrupted := True \<rparr>]"
    using corruptStaleTasks_cases [of e now tasks] by blast
  then show ?thesis
  proof cases
    case same
    then show ?thesis by (simp add: Let_def)
  next
    case hit
    from randomTask_Some [OF hit(1)] have stale: "is_stale now (tasks ! i)" by simp
    have later: "is_stale now' ((tasks ! i)\<lparr> description := d, corrupted := True \<rparr>)"
      if "now \<le> now'" for now' d
      using is_stale_later [OF stale that] by (simp add: is_stale_def Let_def)
    show ?thesis
      unfolding Let_def hit(3) using hit(1,2) later
      by (auto simp: nth_list_update)
  qed
qed

theorem corruption_frame_witness:
  "length (store_after (corruptStaleTasks tick_A 40000 [task_B, task_A])) = 2 \<and>
   store_after (corruptStaleTasks tick_A 40000 [task_B, task_A]) ! 0 = task_B \<and>
   store_after (corruptStaleTasks tick_A 40000 [task_B, task_A]) ! 1 \<noteq> task_A \<and>
   version (store_after (corruptStaleTasks tick_A 40000 [task_B, task_A]) ! 1) = 3 \<and>
   updated_at (store_after (corruptStaleTasks tick_A 40000 [task_B, task_A]) ! 1) = 1000 \<and>
   is_stale 50000 (store_after (corruptStaleTasks tick_A 40000 [task_B, task_A]) ! 1)"
proof -
  note changed = tick_A_changes
  have other: "randomTask (random_task tick_A) 40000 [task_B, task_A] \<noteq> Some 0"
    by (simp add: tick_A_selects)
  from corruption_frame [of tick_A 40000 "[task_B, task_A]"]
  have frame: "\<forall>j<length [task_B, task_A].
         version (store_after (corruptStaleTasks tick_A 40000 [task_B, task_A]) ! j) = version ([task_B, task_A] ! j) \<and>
         updated_at (store_after (corruptStaleTasks tick_A 40000 [task_B, task_A]) ! j) = updated_at ([task_B, task_A] ! j) \<and>
         (randomTask (random_task tick_A) 40000 [task_B, task_A] \<noteq> Some j \<longrightarrow>
            store_after (corruptStaleTasks tick_A 40000 [task_B, task_A]) ! j = [task_B, task_A] ! j) \<and>
         (store_after (corruptStaleTasks tick_A 40000 [task_B, task_A]) ! j \<noteq> [task_B, task_A] ! j \<longrightarrow>
            (\<forall>now'. 40000 \<le> now' \<longrightarrow> is_stale now' (store_after (corruptStaleTasks tick_A 40000 [task_B, task_A]) ! j)))"
    and len: "length (store_after (corruptStaleTasks tick_A 40000 [task_B, task_A])) = length [task_B, task_A]"
    by (simp_all add: Let_def)
  from frame [rule_format, of 0] other frame [rule_format, of 1] changed len
  show ?thesis by (simp add: task_A_def)
qed

end
